theory Spec2Isabelle
  imports Main "HOL-Library.Word"
begin

section \<open>Operands of a machine instruction\<close>

text \<open>
  The development embeds \<^verbatim>\<open>lib/CodeGen/MachineInstr.cpp\<close>. The classes
  \<^verbatim>\<open>MachineOperand\<close> and \<^verbatim>\<open>MachineInstr\<close> are declared in
  \<^verbatim>\<open>llvm/CodeGen/MachineInstr.h\<close>, which is not among the sources; the fields
  below are the ones the source file reads and writes, under the names it uses
  (the field \<^verbatim>\<open>value\<close> is written \<open>val\<close>).
\<close>

datatype MachineOperandType =
    MO_VirtualRegister
  | MO_MachineRegister
  | MO_CCRegister
  | MO_SignExtendedImmed
  | MO_UnextendedImmed
  | MO_PCRelativeDisp

text \<open>
  The source treats \<^verbatim>\<open>flags\<close> as a set of bits: it clears it with
  \<^verbatim>\<open>flags = 0\<close> and tests it against an \<^verbatim>\<open>|\<close> of the four
  \<^verbatim>\<open>HIFLAG/LOFLAG\<close> constants. The numeric values of the constants are declared
  in the header; the model keeps the set of the named bits that are on, so that
  \<^verbatim>\<open>flags = 0\<close> is the empty set, \<^verbatim>\<open>flags |= F\<close> inserts \<open>F\<close> and
  \<^verbatim>\<open>flags & F\<close> is membership.
\<close>

datatype OperandFlag = DEFFLAG | DEFUSEFLAG | HIFLAG32 | LOFLAG32 | HIFLAG64 | LOFLAG64

text \<open>A \<^verbatim>\<open>Value*\<close> is an address; \<open>NULL\<close> is address 0.\<close>

type_synonym Value_ptr = nat

definition NULL :: Value_ptr where
  "NULL = 0"

record MachineOperand =
  opType :: MachineOperandType
  val :: Value_ptr
  immedVal :: "64 word"
  regNum :: int
  flags :: "OperandFlag set"

text \<open>
  Modelled from the spec: the default constructor \<^verbatim>\<open>MachineOperand()\<close> is declared in
  the header. Section 4.2 calls its result a default (unclassified, empty) operand:
  no flag is set, no entity is referenced and no register is allocated (the sentinel
  \<open>-1\<close> the setters of the source write). The kind is the first one of the closed set of
  section 3.
\<close>

definition default_MachineOperand :: MachineOperand where
  "default_MachineOperand =
     \<lparr>opType = MO_VirtualRegister, val = NULL, immedVal = 0, regNum = - 1, flags = {}\<rparr>"

text \<open>
  Modelled from the spec: the flag accessors and markers of the header
  (\<^verbatim>\<open>markDef\<close>, \<^verbatim>\<open>markDefAndUse\<close>, \<^verbatim>\<open>opIsDef\<close>, \<^verbatim>\<open>opIsDefAndUse\<close>,
  \<^verbatim>\<open>opHiBits32\<close>, ...). Section 9 describes def/use and the address modifier as
  independently set flag bits; section 4.1 makes the queries pure classification
  queries.
\<close>

definition markDef :: "MachineOperand \<Rightarrow> MachineOperand" where
  "markDef mo = mo\<lparr>flags := insert DEFFLAG (flags mo)\<rparr>"

definition markDefAndUse :: "MachineOperand \<Rightarrow> MachineOperand" where
  "markDefAndUse mo = mo\<lparr>flags := insert DEFUSEFLAG (flags mo)\<rparr>"

definition opIsDef :: "MachineOperand \<Rightarrow> bool" where
  "opIsDef mo = (DEFFLAG \<in> flags mo)"

definition opIsDefAndUse :: "MachineOperand \<Rightarrow> bool" where
  "opIsDefAndUse mo = (DEFUSEFLAG \<in> flags mo)"

definition opHiBits32 :: "MachineOperand \<Rightarrow> bool" where
  "opHiBits32 mo = (HIFLAG32 \<in> flags mo)"

definition opLoBits32 :: "MachineOperand \<Rightarrow> bool" where
  "opLoBits32 mo = (LOFLAG32 \<in> flags mo)"

definition opHiBits64 :: "MachineOperand \<Rightarrow> bool" where
  "opHiBits64 mo = (HIFLAG64 \<in> flags mo)"

definition opLoBits64 :: "MachineOperand \<Rightarrow> bool" where
  "opLoBits64 mo = (LOFLAG64 \<in> flags mo)"

text \<open>
  Modelled from the spec: \<^verbatim>\<open>hasAllocatedReg\<close> of the header. Section 4.1: true only
  for register-kind operands once the allocated register is set, the unallocated
  sentinel being negative.
\<close>

definition hasAllocatedReg :: "MachineOperand \<Rightarrow> bool" where
  "hasAllocatedReg mo =
     (0 \<le> regNum mo \<and>
      (opType mo = MO_VirtualRegister \<or> opType mo = MO_CCRegister \<or>
       opType mo = MO_MachineRegister))"

datatype error =
    OperandIndexOutOfRange
  | ImmedConstantDefined
  | ImplicitRefsLost
  | NegativeNumOperands
  | WrongOperandType
  | NullValue

text \<open>
  Modelled from the spec: \<^verbatim>\<open>setRegForValue\<close> of the header. Section 4.1: binding a
  register sets the allocated register or the machine register number depending on
  the kind, and setting a field that is not relevant to the operand's kind is
  rejected fatally.
\<close>

definition setRegForValue :: "int \<Rightarrow> MachineOperand \<Rightarrow> error + MachineOperand" where
  "setRegForValue reg mo =
     (if opType mo = MO_VirtualRegister \<or> opType mo = MO_CCRegister \<or>
         opType mo = MO_MachineRegister
      then Inr (mo\<lparr>regNum := reg\<rparr>)
      else Inl WrongOperandType)"

section \<open>Instructions\<close>

text \<open>
  The opcode descriptor table \<^verbatim>\<open>TargetInstrDescriptors\<close> is an external global,
  created per target. Every function that reads it takes it as its first argument.
\<close>

record MachineInstrDescriptor =
  Name :: string
  numOperands :: int
  resultPos :: int

type_synonym MachineOpCode = nat

type_synonym InstrDescriptors = "MachineOpCode \<Rightarrow> MachineInstrDescriptor"

text \<open>
  The source keeps explicit and implicit operands in the one vector
  \<^verbatim>\<open>operands\<close> and counts the implicit ones in \<^verbatim>\<open>numImplicitRefs\<close>: it
  distinguishes \<^verbatim>\<open>i < operands.size()\<close> (``may be explicit or implicit op'') from
  \<^verbatim>\<open>i < getNumOperands()\<close> (``must be explicit op''), reads an implicit reference
  as \<^verbatim>\<open>getImplicitOp(i).value\<close>, and refuses to clear \<^verbatim>\<open>operands\<close> while
  implicit references exist because they ``are going to be lost''. The registers used
  by the instruction are the set \<^verbatim>\<open>regsUsed\<close>.
\<close>

record MachineInstr =
  opCode :: MachineOpCode
  operands :: "MachineOperand list"
  numImplicitRefs :: nat
  regsUsed :: "int set"

text \<open>
  Modelled from the spec: \<^verbatim>\<open>insertUsedReg\<close> and the representation of
  \<^verbatim>\<open>regsUsed\<close> are declared in the header. Section 3: a derived set of the
  register numbers met while inserting operands, from which nothing is removed.
\<close>

definition insertUsedReg :: "int \<Rightarrow> MachineInstr \<Rightarrow> MachineInstr" where
  "insertUsedReg reg mi = mi\<lparr>regsUsed := insert reg (regsUsed mi)\<rparr>"

text \<open>
  Modelled from the spec: the counting accessors of the header. The explicit operands
  come first in \<^verbatim>\<open>operands\<close>, the implicit ones after them, so the number of
  explicit operands is the size of the vector less \<^verbatim>\<open>numImplicitRefs\<close>, and implicit
  reference \<open>i\<close> is the operand at that offset behind the explicit ones.
\<close>

definition getNumOperands :: "MachineInstr \<Rightarrow> nat" where
  "getNumOperands mi = length (operands mi) - numImplicitRefs mi"

definition getNumImplicitRefs :: "MachineInstr \<Rightarrow> nat" where
  "getNumImplicitRefs mi = numImplicitRefs mi"

definition implicitOpIndex :: "MachineInstr \<Rightarrow> nat \<Rightarrow> nat" where
  "implicitOpIndex mi i = i + length (operands mi) - numImplicitRefs mi"

definition getImplicitOp :: "MachineInstr \<Rightarrow> nat \<Rightarrow> MachineOperand" where
  "getImplicitOp mi i = operands mi ! implicitOpIndex mi i"

definition getImplicitRef :: "MachineInstr \<Rightarrow> nat \<Rightarrow> Value_ptr" where
  "getImplicitRef mi i = val (getImplicitOp mi i)"

definition implicitRefIsDefined :: "MachineInstr \<Rightarrow> nat \<Rightarrow> bool" where
  "implicitRefIsDefined mi i = opIsDef (getImplicitOp mi i)"

subsection \<open>Construction\<close>

text \<open>
  The constructor for instructions with a fixed number of operands sizes the vector
  from the descriptor and asserts that the declared number is not negative.
\<close>

definition MachineInstr_fixed :: "InstrDescriptors \<Rightarrow> MachineOpCode \<Rightarrow> error + MachineInstr" where
  "MachineInstr_fixed TID opc =
     (if 0 \<le> numOperands (TID opc)
      then Inr \<lparr>opCode = opc,
                operands = replicate (nat (numOperands (TID opc))) default_MachineOperand,
                numImplicitRefs = 0,
                regsUsed = {}\<rparr>
      else Inl NegativeNumOperands)"

definition OperandsComplete :: "InstrDescriptors \<Rightarrow> MachineInstr \<Rightarrow> bool" where
  "OperandsComplete TID mi =
     (let NumOperands = numOperands (TID (opCode mi))
      in if 0 \<le> NumOperands \<and> nat NumOperands \<le> getNumOperands mi then True else False)"

subsection \<open>Replacing opcode and operands in place\<close>

definition replace :: "MachineOpCode \<Rightarrow> nat \<Rightarrow> MachineInstr \<Rightarrow> error + MachineInstr" where
  "replace Opcode n mi =
     (if getNumImplicitRefs mi = 0
      then Inr (mi\<lparr>opCode := Opcode, operands := replicate n default_MachineOperand\<rparr>)
      else Inl ImplicitRefsLost)"

subsection \<open>Operand setters\<close>

text \<open>
  The index \<open>i\<close> is \<^verbatim>\<open>unsigned\<close> and the descriptor's \<^verbatim>\<open>resultPos\<close> is an
  \<^verbatim>\<open>int\<close>, negative when the opcode has no result operand. An index that passes the
  range assertion is the position of an operand in the vector, so the cast
  \<^verbatim>\<open>(int) i\<close> is the number \<open>i\<close> itself. Each assertion of the source is a
  result \<open>Inl\<close> of its own.
\<close>

definition SetMachineOperandVal ::
  "InstrDescriptors \<Rightarrow> nat \<Rightarrow> MachineOperandType \<Rightarrow> Value_ptr \<Rightarrow> bool \<Rightarrow> bool \<Rightarrow>
   MachineInstr \<Rightarrow> error + MachineInstr" where
  "SetMachineOperandVal TID i opTy V isdef isDefAndUse mi =
     (if i < length (operands mi)
      then
        let mo0 = (operands mi ! i)\<lparr>opType := opTy, val := V, regNum := - 1, flags := {}\<rparr>;
            mo1 = (if isdef \<or> resultPos (TID (opCode mi)) = int i then markDef mo0 else mo0);
            mo2 = (if isDefAndUse then markDefAndUse mo1 else mo1)
        in Inr (mi\<lparr>operands := (operands mi)[i := mo2]\<rparr>)
      else Inl OperandIndexOutOfRange)"

definition SetMachineOperandConst ::
  "InstrDescriptors \<Rightarrow> nat \<Rightarrow> MachineOperandType \<Rightarrow> 64 word \<Rightarrow>
   MachineInstr \<Rightarrow> error + MachineInstr" where
  "SetMachineOperandConst TID i operandType intValue mi =
     (if i < getNumOperands mi
      then
        if resultPos (TID (opCode mi)) \<noteq> int i
        then Inr (mi\<lparr>operands := (operands mi)
                       [i := (operands mi ! i)\<lparr>opType := operandType, val := NULL,
                                                immedVal := intValue, regNum := - 1,
                                                flags := {}\<rparr>]\<rparr>)
        else Inl ImmedConstantDefined
      else Inl OperandIndexOutOfRange)"

definition SetMachineOperandReg ::
  "InstrDescriptors \<Rightarrow> nat \<Rightarrow> int \<Rightarrow> bool \<Rightarrow> MachineInstr \<Rightarrow> error + MachineInstr" where
  "SetMachineOperandReg TID i reg isdef mi =
     (if i < getNumOperands mi
      then
        let mo0 = (operands mi ! i)\<lparr>opType := MO_MachineRegister, val := NULL,
                                     regNum := reg, flags := {}\<rparr>;
            mo1 = (if isdef \<or> resultPos (TID (opCode mi)) = int i then markDef mo0 else mo0)
        in Inr (insertUsedReg reg (mi\<lparr>operands := (operands mi)[i := mo1]\<rparr>))
      else Inl OperandIndexOutOfRange)"

definition SetRegForOperand :: "nat \<Rightarrow> int \<Rightarrow> MachineInstr \<Rightarrow> error + MachineInstr" where
  "SetRegForOperand i reg mi =
     (if i < getNumOperands mi
      then
        case setRegForValue reg (operands mi ! i) of
          Inl e \<Rightarrow> Inl e
        | Inr mo \<Rightarrow> Inr (insertUsedReg reg (mi\<lparr>operands := (operands mi)[i := mo]\<rparr>))
      else Inl OperandIndexOutOfRange)"

section \<open>Value substitution\<close>

text \<open>
  \<^verbatim>\<open>substituteValue\<close> runs two loops. The first walks the explicit operands with
  the \<^verbatim>\<open>val_op_iterator\<close> of the header, which stops only at the operands that
  carry a \<^verbatim>\<open>Value\<close>; the test by which the iterator selects them is declared in
  the header, so the loops take it as the parameter \<open>isValOp\<close>, and the iterator position
  \<^verbatim>\<open>O\<close> is the operand index \<open>Oi\<close>. The end iterator is
  \<^verbatim>\<open>getNumOperands()\<close>. The second loop walks the implicit references by index,
  with the bound \<^verbatim>\<open>N = getNumImplicitRefs()\<close> read once. The state of both loops
  is the counter \<^verbatim>\<open>numSubst\<close> and the instruction.
\<close>

function substituteOperands ::
  "(MachineOperand \<Rightarrow> bool) \<Rightarrow> Value_ptr \<Rightarrow> Value_ptr \<Rightarrow> bool \<Rightarrow> nat \<Rightarrow>
   nat \<times> MachineInstr \<Rightarrow> nat \<times> MachineInstr" where
  "substituteOperands isValOp oldVal newVal defsOnly Oi (numSubst, mi) =
     (if Oi < getNumOperands mi
      then
        if isValOp (operands mi ! Oi)
        then
          if val (operands mi ! Oi) = oldVal
          then
            if \<not> defsOnly \<or> opIsDef (operands mi ! Oi)
            then substituteOperands isValOp oldVal newVal defsOnly (Suc Oi)
                   (Suc numSubst,
                    mi\<lparr>operands := (operands mi)[Oi := (operands mi ! Oi)\<lparr>val := newVal\<rparr>]\<rparr>)
            else substituteOperands isValOp oldVal newVal defsOnly (Suc Oi) (numSubst, mi)
          else substituteOperands isValOp oldVal newVal defsOnly (Suc Oi) (numSubst, mi)
        else substituteOperands isValOp oldVal newVal defsOnly (Suc Oi) (numSubst, mi)
      else (numSubst, mi))"
  by pat_completeness auto
termination
  by (relation "measure (\<lambda>(isValOp, oldVal, newVal, defsOnly, Oi, numSubst, mi).
                   getNumOperands mi - Oi)")
     (auto simp: getNumOperands_def)

function substituteImplicitRefs ::
  "Value_ptr \<Rightarrow> Value_ptr \<Rightarrow> bool \<Rightarrow> nat \<Rightarrow> nat \<Rightarrow>
   nat \<times> MachineInstr \<Rightarrow> nat \<times> MachineInstr" where
  "substituteImplicitRefs oldVal newVal defsOnly N i (numSubst, mi) =
     (if i < N
      then
        if getImplicitRef mi i = oldVal
        then
          if \<not> defsOnly \<or> implicitRefIsDefined mi i
          then substituteImplicitRefs oldVal newVal defsOnly N (Suc i)
                 (Suc numSubst,
                  mi\<lparr>operands := (operands mi)
                        [implicitOpIndex mi i := (getImplicitOp mi i)\<lparr>val := newVal\<rparr>]\<rparr>)
          else substituteImplicitRefs oldVal newVal defsOnly N (Suc i) (numSubst, mi)
        else substituteImplicitRefs oldVal newVal defsOnly N (Suc i) (numSubst, mi)
      else (numSubst, mi))"
  by pat_completeness auto
termination
  by (relation "measure (\<lambda>(oldVal, newVal, defsOnly, N, i, numSubst, mi). N - i)") auto

definition substituteValue ::
  "(MachineOperand \<Rightarrow> bool) \<Rightarrow> Value_ptr \<Rightarrow> Value_ptr \<Rightarrow> bool \<Rightarrow> MachineInstr \<Rightarrow>
   nat \<times> MachineInstr" where
  "substituteValue isValOp oldVal newVal defsOnly mi =
     (let s1 = substituteOperands isValOp oldVal newVal defsOnly 0 (0, mi)
      in substituteImplicitRefs oldVal newVal defsOnly (getNumImplicitRefs (snd s1)) 0 s1)"

declare substituteOperands.simps [simp del]
declare substituteImplicitRefs.simps [simp del]

text \<open>
  Modelled from the spec: the test by which the \<^verbatim>\<open>val_op_iterator\<close> of the header
  selects the operands it stops at. Section 4.3: the scan covers every explicit operand
  carrying a symbolic reference; section 3: the referenced value is present for the
  virtual-register, the condition-code-register and the PC-relative-displacement kind.
  The member function \<^verbatim>\<open>MachineInstr::substituteValue\<close> is
  \<open>substituteValue carriesValue\<close>.
\<close>

definition carriesValue :: "MachineOperand \<Rightarrow> bool" where
  "carriesValue mo =
     (opType mo = MO_VirtualRegister \<or> opType mo = MO_CCRegister \<or>
      opType mo = MO_PCRelativeDisp)"



section \<open>Rendering an operand\<close>

text \<open>
  Modelled from the spec: what the rendering functions read of the classes
  \<^verbatim>\<open>Value\<close>, \<^verbatim>\<open>MRegisterInfo\<close> and \<^verbatim>\<open>TargetMachine\<close>, none of which
  is declared in the source file. Section 4.4: a referenced entity has a display name
  or is unnamed, and is or is not a function or a basic block; section 6: the register
  naming service gives the name of a register number and the first virtual register
  threshold. \<^verbatim>\<open>TM.getRegisterInfo()\<close> is a pointer that \<^verbatim>\<open>OutputReg\<close> tests
  against null, hence an option. The memory maps the address held in a
  \<^verbatim>\<open>Value*\<close> to the object it points to.
\<close>

datatype ValueClass = FunctionVal | BasicBlockVal | OtherVal

record ValueObj =
  hasName :: bool
  getName :: string
  valueClass :: ValueClass

type_synonym Memory = "Value_ptr \<Rightarrow> ValueObj"

record MRegisterInfo =
  regName :: "nat \<Rightarrow> string"
  FirstVirtualRegister :: nat

record TargetMachine =
  getRegisterInfo :: "MRegisterInfo option"

text \<open>
  An output stream is the text written to it. Integers are written in decimal; an
  address (\<^verbatim>\<open>(void*) val\<close>) is written by the stream library in a form of its
  own choosing, taken here to be hexadecimal after \<^verbatim>\<open>0x\<close>. The cast
  \<^verbatim>\<open>(long)\<close> of the 64-bit immediate keeps its signed value, and the \<^verbatim>\<open>int\<close>
  register number passed for the \<^verbatim>\<open>unsigned RegNo\<close> of \<^verbatim>\<open>OutputReg\<close> is
  reduced modulo \<open>2^32\<close>.
\<close>

fun show_nat :: "nat \<Rightarrow> string" where
  "show_nat n =
     (if n < 10 then [''0123456789'' ! n]
      else show_nat (n div 10) @ [''0123456789'' ! (n mod 10)])"

declare show_nat.simps [simp del]

definition show_int :: "int \<Rightarrow> string" where
  "show_int i = (if i < 0 then ''-'' @ show_nat (nat (- i)) else show_nat (nat i))"

fun show_hex :: "nat \<Rightarrow> string" where
  "show_hex n =
     (if n < 16 then [''0123456789abcdef'' ! n]
      else show_hex (n div 16) @ [''0123456789abcdef'' ! (n mod 16)])"

declare show_hex.simps [simp del]

definition show_ptr :: "Value_ptr \<Rightarrow> string" where
  "show_ptr p = ''0x'' @ show_hex p"

definition to_unsigned :: "int \<Rightarrow> nat" where
  "to_unsigned r = nat (r mod 4294967296)"

definition OutputValue :: "Memory \<Rightarrow> Value_ptr \<Rightarrow> string" where
  "OutputValue mem v =
     ''(val '' @
     (if v \<noteq> NULL \<and> hasName (mem v) then getName (mem v) @ '')''
      else show_ptr v @ '')'')"

definition OutputReg :: "nat \<Rightarrow> MRegisterInfo option \<Rightarrow> string" where
  "OutputReg RegNo MRI =
     (case MRI of
        Some mri \<Rightarrow>
          if RegNo < FirstVirtualRegister mri then ''%'' @ regName mri RegNo
          else ''%reg'' @ show_nat RegNo
      | None \<Rightarrow> ''%mreg('' @ show_nat RegNo @ '')'')"

text \<open>
  The static function \<^verbatim>\<open>print(const MachineOperand&, std::ostream&, const TargetMachine&)\<close>.
  The accessors it calls are guarded by the \<^verbatim>\<open>switch\<close> on the operand type, so
  they read the fields. A null \<^verbatim>\<open>opVal\<close> in the displacement case is
  dereferenced by the source; the model returns an error.
\<close>

definition print_MachineOperand ::
  "Memory \<Rightarrow> TargetMachine \<Rightarrow> MachineOperand \<Rightarrow> error + string" where
  "print_MachineOperand mem TM MO =
     (let MRI = getRegisterInfo TM;
          (modifier, CloseParen) =
            (if opHiBits32 MO then (''%lm('', True)
             else if opLoBits32 MO then (''%lo('', True)
             else if opHiBits64 MO then (''%hh('', True)
             else if opLoBits64 MO then (''%hm('', True)
             else ('''', False));
          body =
            (case opType MO of
               MO_VirtualRegister \<Rightarrow>
                 Inr ((if val MO \<noteq> NULL
                       then ''%reg'' @ OutputValue mem (val MO) @
                            (if hasAllocatedReg MO then ''=='' else '''')
                       else '''') @
                      (if hasAllocatedReg MO then OutputReg (to_unsigned (regNum MO)) MRI
                       else ''''))
             | MO_CCRegister \<Rightarrow>
                 Inr (''%ccreg'' @ OutputValue mem (val MO) @
                      (if hasAllocatedReg MO
                       then ''=='' @ OutputReg (to_unsigned (regNum MO)) MRI else ''''))
             | MO_MachineRegister \<Rightarrow> Inr (OutputReg (to_unsigned (regNum MO)) MRI)
             | MO_SignExtendedImmed \<Rightarrow> Inr (show_int (sint (immedVal MO)))
             | MO_UnextendedImmed \<Rightarrow> Inr (show_int (sint (immedVal MO)))
             | MO_PCRelativeDisp \<Rightarrow>
                 if val MO = NULL then Inl NullValue
                 else
                   let isLabel = (valueClass (mem (val MO)) = FunctionVal \<or>
                                  valueClass (mem (val MO)) = BasicBlockVal)
                   in Inr (''%disp('' @ (if isLabel then ''label '' else ''addr-of-val '') @
                           (if hasName (mem (val MO)) then getName (mem (val MO))
                            else show_ptr (val MO)) @
                           '')''))
      in case body of
           Inl e \<Rightarrow> Inl e
         | Inr s \<Rightarrow> Inr (modifier @ s @ (if CloseParen then '')'' else '''')))"

text \<open>The context-free form \<^verbatim>\<open>operator<<(std::ostream&, const MachineOperand&)\<close>.\<close>

definition operator_lshift_MachineOperand :: "Memory \<Rightarrow> MachineOperand \<Rightarrow> error + string" where
  "operator_lshift_MachineOperand mem mop =
     (let modifier =
            (if opHiBits32 mop then ''%lm(''
             else if opLoBits32 mop then ''%lo(''
             else if opHiBits64 mop then ''%hh(''
             else if opLoBits64 mop then ''%hm(''
             else '''');
          body =
            (case opType mop of
               MO_VirtualRegister \<Rightarrow>
                 Inr (''%reg'' @ OutputValue mem (val mop) @
                      (if hasAllocatedReg mop
                       then ''=='' @ OutputReg (to_unsigned (regNum mop)) None else ''''))
             | MO_CCRegister \<Rightarrow>
                 Inr (''%ccreg'' @ OutputValue mem (val mop) @
                      (if hasAllocatedReg mop
                       then ''=='' @ OutputReg (to_unsigned (regNum mop)) None else ''''))
             | MO_MachineRegister \<Rightarrow> Inr (OutputReg (to_unsigned (regNum mop)) None)
             | MO_SignExtendedImmed \<Rightarrow> Inr (show_int (sint (immedVal mop)))
             | MO_UnextendedImmed \<Rightarrow> Inr (show_int (sint (immedVal mop)))
             | MO_PCRelativeDisp \<Rightarrow>
                 if val mop = NULL then Inl NullValue
                 else
                   let isLabel = (valueClass (mem (val mop)) = FunctionVal \<or>
                                  valueClass (mem (val mop)) = BasicBlockVal)
                   in Inr (''%disp('' @ (if isLabel then ''label '' else ''addr-of-val '') @
                           (if hasName (mem (val mop)) then getName (mem (val mop))
                            else show_ptr (val mop)) @
                           '')''))
      in case body of
           Inl e \<Rightarrow> Inl e
         | Inr s \<Rightarrow>
             Inr (modifier @ s @
                  (if flags mop \<inter> {HIFLAG32, LOFLAG32, HIFLAG64, LOFLAG64} \<noteq> {}
                   then '')'' else '''')))"

section \<open>Construction and completeness of the operand list\<close>

text \<open>
  C7. For an opcode whose descriptor declares a fixed number \<open>n \<ge> 0\<close> of operands, the
  fixed-arity constructor succeeds, the instruction it builds has exactly \<open>n\<close> explicit
  operands, and \<^verbatim>\<open>OperandsComplete\<close> holds of it at once. For every instruction,
  \<^verbatim>\<open>OperandsComplete\<close> is true exactly when the declared number is not negative
  and the number of explicit operands has reached or passed it.
\<close>

theorem fixed_arity_construction:
  "(0 \<le> numOperands (TID opc) \<longrightarrow>
      (\<exists>mi. MachineInstr_fixed TID opc = Inr mi \<and>
         int (getNumOperands mi) = numOperands (TID opc) \<and>
         OperandsComplete TID mi)) \<and>
   (OperandsComplete TID m \<longleftrightarrow>
      (0 \<le> numOperands (TID (opCode m)) \<and>
       numOperands (TID (opCode m)) \<le> int (getNumOperands m)))"
  by (auto simp: MachineInstr_fixed_def OperandsComplete_def getNumOperands_def Let_def)

theorem fixed_arity_construction_witness:
  "MachineInstr_fixed (\<lambda>_. \<lparr>Name = ''add'', numOperands = 2, resultPos = 0\<rparr>) 5
     = Inr \<lparr>opCode = 5, operands = [default_MachineOperand, default_MachineOperand],
            numImplicitRefs = 0, regsUsed = {}\<rparr> \<and>
   OperandsComplete (\<lambda>_. \<lparr>Name = ''add'', numOperands = 2, resultPos = 0\<rparr>)
     \<lparr>opCode = 5, operands = [default_MachineOperand, default_MachineOperand],
      numImplicitRefs = 0, regsUsed = {}\<rparr> \<and>
   \<not> OperandsComplete (\<lambda>_. \<lparr>Name = ''add'', numOperands = 2, resultPos = 0\<rparr>)
     \<lparr>opCode = 5, operands = [default_MachineOperand],
      numImplicitRefs = 0, regsUsed = {}\<rparr>"
  using fixed_arity_construction
          [where TID = "\<lambda>_. \<lparr>Name = ''add'', numOperands = 2, resultPos = 0\<rparr>" and opc = 5
             and m = "\<lparr>opCode = 5, operands = [default_MachineOperand, default_MachineOperand],
                        numImplicitRefs = 0, regsUsed = {}\<rparr>"]
        fixed_arity_construction
          [where TID = "\<lambda>_. \<lparr>Name = ''add'', numOperands = 2, resultPos = 0\<rparr>" and opc = 5
             and m = "\<lparr>opCode = 5, operands = [default_MachineOperand],
                        numImplicitRefs = 0, regsUsed = {}\<rparr>"]
  by (auto simp: MachineInstr_fixed_def getNumOperands_def numeral_2_eq_2)

section \<open>Replacing an opcode: the precondition and the result\<close>

text \<open>
  C8. \<^verbatim>\<open>replace(Opcode, numOperands)\<close> fails its assertion when the instruction
  has an implicit reference; when it has none, the opcode becomes \<open>Opcode\<close> and the
  operand vector becomes exactly \<open>numOperands\<close> default operands, each without flags,
  without a referenced entity and without a register.
\<close>

theorem replace_resets_operands:
  "(getNumImplicitRefs mi \<noteq> 0 \<longrightarrow> replace Opcode n mi = Inl ImplicitRefsLost) \<and>
   (getNumImplicitRefs mi = 0 \<longrightarrow>
      (\<exists>mi'. replace Opcode n mi = Inr mi' \<and>
         opCode mi' = Opcode \<and>
         operands mi' = replicate n default_MachineOperand \<and>
         length (operands mi') = n \<and>
         getNumOperands mi' = n \<and>
         (\<forall>mo \<in> set (operands mi').
            flags mo = {} \<and> val mo = NULL \<and> regNum mo = - 1 \<and>
            \<not> opIsDef mo \<and> \<not> opIsDefAndUse mo \<and> \<not> hasAllocatedReg mo)))"
  by (auto simp: replace_def getNumImplicitRefs_def getNumOperands_def
      default_MachineOperand_def opIsDef_def opIsDefAndUse_def hasAllocatedReg_def)

theorem replace_resets_operands_witness:
  "replace 7 2 \<lparr>opCode = 3, operands = [default_MachineOperand\<lparr>regNum := 4\<rparr>],
                numImplicitRefs = 0, regsUsed = {4}\<rparr>
     = Inr \<lparr>opCode = 7, operands = [default_MachineOperand, default_MachineOperand],
            numImplicitRefs = 0, regsUsed = {4}\<rparr> \<and>
   replace 7 2 \<lparr>opCode = 3, operands = [default_MachineOperand],
                numImplicitRefs = 1, regsUsed = {}\<rparr>
     = Inl ImplicitRefsLost"
  using replace_resets_operands
          [of "\<lparr>opCode = 3, operands = [default_MachineOperand\<lparr>regNum := 4\<rparr>],
                numImplicitRefs = 0, regsUsed = {4}\<rparr>" 7 2]
        replace_resets_operands
          [of "\<lparr>opCode = 3, operands = [default_MachineOperand],
                numImplicitRefs = 1, regsUsed = {}\<rparr>" 7 2]
  by (auto simp: replace_def getNumImplicitRefs_def numeral_2_eq_2)
section \<open>The operand setters\<close>

text \<open>
  C3, as the code has it. \<^verbatim>\<open>SetMachineOperandReg\<close> and
  \<^verbatim>\<open>SetMachineOperandConst\<close> fail the index assertion exactly when the index is
  not below the number of explicit operands. \<^verbatim>\<open>SetMachineOperandVal\<close> checks the
  index against the size of the whole operand vector (``may be explicit or implicit
  op''): it fails exactly when the index is not below that size, and so accepts the
  index of an implicit reference.
\<close>

theorem setters_validate_index:
  "(SetMachineOperandReg TID i reg isdef mi = Inl OperandIndexOutOfRange
      \<longleftrightarrow> \<not> i < getNumOperands mi) \<and>
   ((\<exists>e. SetMachineOperandReg TID i reg isdef mi = Inl e) \<longleftrightarrow> \<not> i < getNumOperands mi) \<and>
   (SetMachineOperandConst TID i operandType intValue mi = Inl OperandIndexOutOfRange
      \<longleftrightarrow> \<not> i < getNumOperands mi) \<and>
   (SetMachineOperandVal TID i opTy V isdef isDefAndUse mi = Inl OperandIndexOutOfRange
      \<longleftrightarrow> \<not> i < length (operands mi)) \<and>
   ((\<exists>e. SetMachineOperandVal TID i opTy V isdef isDefAndUse mi = Inl e)
      \<longleftrightarrow> \<not> i < length (operands mi)) \<and>
   (getNumOperands mi \<le> i \<and> i < getNumOperands mi + getNumImplicitRefs mi \<and>
    numImplicitRefs mi \<le> length (operands mi) \<longrightarrow>
      (\<exists>mi'. SetMachineOperandVal TID i opTy V isdef isDefAndUse mi = Inr mi'))"
  by (auto simp: SetMachineOperandVal_def SetMachineOperandReg_def SetMachineOperandConst_def
      getNumOperands_def getNumImplicitRefs_def Let_def)

text \<open>
  An instruction of a variable-arity opcode with no explicit operand and one implicit
  reference: \<^verbatim>\<open>SetMachineOperandVal\<close> at index 0 succeeds, although 0 is not below
  the number of explicit operands.
\<close>

theorem setters_validate_index_counterexample:
  "getNumOperands \<lparr>opCode = 5, operands = [default_MachineOperand],
                   numImplicitRefs = 1, regsUsed = {}\<rparr> = 0 \<and>
   SetMachineOperandVal (\<lambda>_. \<lparr>Name = ''call'', numOperands = - 1, resultPos = - 1\<rparr>)
      0 MO_VirtualRegister 9 False False
      \<lparr>opCode = 5, operands = [default_MachineOperand], numImplicitRefs = 1, regsUsed = {}\<rparr>
     = Inr \<lparr>opCode = 5,
            operands = [\<lparr>opType = MO_VirtualRegister, val = 9, immedVal = 0,
                         regNum = - 1, flags = {}\<rparr>],
            numImplicitRefs = 1, regsUsed = {}\<rparr>"
  by (simp add: SetMachineOperandVal_def getNumOperands_def default_MachineOperand_def)

theorem setters_validate_index_witness:
  "SetMachineOperandReg (\<lambda>_. \<lparr>Name = ''call'', numOperands = - 1, resultPos = - 1\<rparr>)
      0 3 False
      \<lparr>opCode = 5, operands = [default_MachineOperand], numImplicitRefs = 1, regsUsed = {}\<rparr>
     = Inl OperandIndexOutOfRange \<and>
   SetMachineOperandConst (\<lambda>_. \<lparr>Name = ''call'', numOperands = - 1, resultPos = - 1\<rparr>)
      0 MO_SignExtendedImmed 42
      \<lparr>opCode = 5, operands = [default_MachineOperand], numImplicitRefs = 1, regsUsed = {}\<rparr>
     = Inl OperandIndexOutOfRange \<and>
   SetMachineOperandVal (\<lambda>_. \<lparr>Name = ''call'', numOperands = - 1, resultPos = - 1\<rparr>)
      1 MO_VirtualRegister 9 False False
      \<lparr>opCode = 5, operands = [default_MachineOperand], numImplicitRefs = 1, regsUsed = {}\<rparr>
     = Inl OperandIndexOutOfRange \<and>
   (\<exists>mi'. SetMachineOperandVal
             (\<lambda>_. \<lparr>Name = ''call'', numOperands = - 1, resultPos = - 1\<rparr>)
             0 MO_VirtualRegister 9 False False
             \<lparr>opCode = 5, operands = [default_MachineOperand], numImplicitRefs = 1,
              regsUsed = {}\<rparr> = Inr mi')"
  using setters_validate_index
          [where TID = "\<lambda>_. \<lparr>Name = ''call'', numOperands = - 1, resultPos = - 1\<rparr>"
             and i = 0 and reg = 3 and isdef = False
             and mi = "\<lparr>opCode = 5, operands = [default_MachineOperand], numImplicitRefs = 1,
                         regsUsed = {}\<rparr>"
             and operandType = MO_SignExtendedImmed and intValue = 42
             and opTy = MO_VirtualRegister and V = 9 and isDefAndUse = False]
        setters_validate_index
          [where TID = "\<lambda>_. \<lparr>Name = ''call'', numOperands = - 1, resultPos = - 1\<rparr>"
             and i = 1 and reg = 3 and isdef = False
             and mi = "\<lparr>opCode = 5, operands = [default_MachineOperand], numImplicitRefs = 1,
                         regsUsed = {}\<rparr>"
             and operandType = MO_SignExtendedImmed and intValue = 42
             and opTy = MO_VirtualRegister and V = 9 and isDefAndUse = False]
  by (simp add: getNumOperands_def getNumImplicitRefs_def)

text \<open>
  C5. At an index below the number of explicit operands,
  \<^verbatim>\<open>SetMachineOperandConst\<close> fails the assertion ``immed. constant cannot be
  defined'' whenever the index is the result position the opcode's descriptor
  declares, whatever kind and literal it is given; at any other such index it succeeds,
  the operand there gets the given kind and literal, no register and no flag, and
  nothing else of the instruction changes.
\<close>

theorem SetMachineOperandConst_result_position:
  "i < getNumOperands mi \<Longrightarrow>
     (resultPos (TID (opCode mi)) = int i \<longrightarrow>
        SetMachineOperandConst TID i operandType intValue mi = Inl ImmedConstantDefined) \<and>
     (resultPos (TID (opCode mi)) \<noteq> int i \<longrightarrow>
        (\<exists>mi'. SetMachineOperandConst TID i operandType intValue mi = Inr mi' \<and>
           opType (operands mi' ! i) = operandType \<and>
           immedVal (operands mi' ! i) = intValue \<and>
           regNum (operands mi' ! i) = - 1 \<and>
           flags (operands mi' ! i) = {} \<and>
           length (operands mi') = length (operands mi) \<and>
           (\<forall>j < length (operands mi). j \<noteq> i \<longrightarrow> operands mi' ! j = operands mi ! j) \<and>
           opCode mi' = opCode mi \<and>
           numImplicitRefs mi' = numImplicitRefs mi \<and>
           regsUsed mi' = regsUsed mi))"
  by (auto simp: SetMachineOperandConst_def getNumOperands_def)

theorem SetMachineOperandConst_result_position_witness:
  "SetMachineOperandConst (\<lambda>_. \<lparr>Name = ''add'', numOperands = 2, resultPos = 0\<rparr>)
      0 MO_SignExtendedImmed 42
      \<lparr>opCode = 5, operands = [default_MachineOperand, default_MachineOperand],
       numImplicitRefs = 0, regsUsed = {}\<rparr>
     = Inl ImmedConstantDefined \<and>
   SetMachineOperandConst (\<lambda>_. \<lparr>Name = ''add'', numOperands = 2, resultPos = 0\<rparr>)
      1 MO_SignExtendedImmed 42
      \<lparr>opCode = 5, operands = [default_MachineOperand, default_MachineOperand],
       numImplicitRefs = 0, regsUsed = {}\<rparr>
     = Inr \<lparr>opCode = 5,
            operands = [default_MachineOperand,
                        \<lparr>opType = MO_SignExtendedImmed, val = NULL, immedVal = 42,
                         regNum = - 1, flags = {}\<rparr>],
            numImplicitRefs = 0, regsUsed = {}\<rparr>"
  using SetMachineOperandConst_result_position
          [where i = 0
             and mi = "\<lparr>opCode = 5, operands = [default_MachineOperand, default_MachineOperand],
                         numImplicitRefs = 0, regsUsed = {}\<rparr>"
             and TID = "\<lambda>_. \<lparr>Name = ''add'', numOperands = 2, resultPos = 0\<rparr>"
             and operandType = MO_SignExtendedImmed and intValue = 42]
        SetMachineOperandConst_result_position
          [where i = 1
             and mi = "\<lparr>opCode = 5, operands = [default_MachineOperand, default_MachineOperand],
                         numImplicitRefs = 0, regsUsed = {}\<rparr>"
             and TID = "\<lambda>_. \<lparr>Name = ''add'', numOperands = 2, resultPos = 0\<rparr>"
             and operandType = MO_SignExtendedImmed and intValue = 42]
  by (simp add: SetMachineOperandConst_def getNumOperands_def default_MachineOperand_def)

text \<open>
  C6. At an index below the number of explicit operands, \<^verbatim>\<open>SetMachineOperandVal\<close>
  and \<^verbatim>\<open>SetMachineOperandReg\<close> succeed, and the operand they leave there is a
  definition (\<^verbatim>\<open>opIsDef\<close>) exactly when \<^verbatim>\<open>isdef\<close> is true or the index is the
  result position the descriptor declares; after \<^verbatim>\<open>SetMachineOperandVal\<close> it is a
  def-and-use exactly when \<^verbatim>\<open>isDefAndUse\<close> is true. In particular, on an opcode
  whose descriptor declares operand 0 as the result,
  \<^verbatim>\<open>SetMachineOperandVal(0, MO_VirtualRegister, V, false, false)\<close> leaves an operand
  that is a definition and has no allocated register.
\<close>

theorem setters_classify_definition:
  "i < getNumOperands mi \<Longrightarrow>
     (\<exists>mi'. SetMachineOperandVal TID i opTy V isdef isDefAndUse mi = Inr mi' \<and>
        (opIsDef (operands mi' ! i) \<longleftrightarrow> (isdef \<or> resultPos (TID (opCode mi)) = int i)) \<and>
        (opIsDefAndUse (operands mi' ! i) \<longleftrightarrow> isDefAndUse)) \<and>
     (\<exists>mi'. SetMachineOperandReg TID i reg isdef mi = Inr mi' \<and>
        (opIsDef (operands mi' ! i) \<longleftrightarrow> (isdef \<or> resultPos (TID (opCode mi)) = int i)) \<and>
        \<not> opIsDefAndUse (operands mi' ! i)) \<and>
     (i = 0 \<and> resultPos (TID (opCode mi)) = 0 \<longrightarrow>
        (\<exists>mi'. SetMachineOperandVal TID 0 MO_VirtualRegister V False False mi = Inr mi' \<and>
           opIsDef (operands mi' ! 0) \<and> \<not> hasAllocatedReg (operands mi' ! 0)))"
  by (auto simp: SetMachineOperandVal_def SetMachineOperandReg_def getNumOperands_def
      insertUsedReg_def markDef_def markDefAndUse_def opIsDef_def opIsDefAndUse_def
      hasAllocatedReg_def Let_def)

theorem setters_classify_definition_witness:
  "SetMachineOperandVal (\<lambda>_. \<lparr>Name = ''add'', numOperands = 2, resultPos = 0\<rparr>)
      0 MO_VirtualRegister 9 False False
      \<lparr>opCode = 5, operands = [default_MachineOperand, default_MachineOperand],
       numImplicitRefs = 0, regsUsed = {}\<rparr>
     = Inr \<lparr>opCode = 5,
            operands = [\<lparr>opType = MO_VirtualRegister, val = 9, immedVal = 0,
                         regNum = - 1, flags = {DEFFLAG}\<rparr>,
                        default_MachineOperand],
            numImplicitRefs = 0, regsUsed = {}\<rparr> \<and>
   opIsDef \<lparr>opType = MO_VirtualRegister, val = 9, immedVal = 0,
            regNum = - 1, flags = {DEFFLAG}\<rparr> \<and>
   \<not> hasAllocatedReg \<lparr>opType = MO_VirtualRegister, val = 9, immedVal = 0,
                      regNum = - 1, flags = {DEFFLAG}\<rparr>"
  using setters_classify_definition
          [where i = 0
             and TID = "\<lambda>_. \<lparr>Name = ''add'', numOperands = 2, resultPos = 0\<rparr>"
             and mi = "\<lparr>opCode = 5, operands = [default_MachineOperand, default_MachineOperand],
                         numImplicitRefs = 0, regsUsed = {}\<rparr>"
             and opTy = MO_VirtualRegister and V = 9 and isdef = False and isDefAndUse = False
             and reg = 5]
  by (simp add: SetMachineOperandVal_def getNumOperands_def default_MachineOperand_def
      markDef_def opIsDef_def hasAllocatedReg_def)

text \<open>
  C9. Whenever \<^verbatim>\<open>SetRegForOperand(i, r)\<close> returns, \<open>r\<close> is in the instruction's set
  of used registers; it returns at every index below the number of explicit operands
  whose operand is of a register kind (the binding of a register to an operand of
  another kind is rejected), and then the operand holds \<open>r\<close>. At every index below the
  number of explicit operands \<^verbatim>\<open>SetMachineOperandReg(i, r, isdef)\<close> returns, with \<open>r\<close>
  in the set.
\<close>

theorem used_register_recorded:
  "(SetRegForOperand i r mi = Inr mi' \<longrightarrow> r \<in> regsUsed mi') \<and>
   (i < getNumOperands mi \<and>
    (opType (operands mi ! i) = MO_VirtualRegister \<or>
     opType (operands mi ! i) = MO_CCRegister \<or>
     opType (operands mi ! i) = MO_MachineRegister) \<longrightarrow>
      (\<exists>mi''. SetRegForOperand i r mi = Inr mi'' \<and> r \<in> regsUsed mi'' \<and>
         regNum (operands mi'' ! i) = r)) \<and>
   (i < getNumOperands mi \<longrightarrow>
      (\<exists>mi''. SetMachineOperandReg TID i r isdef mi = Inr mi'' \<and> r \<in> regsUsed mi''))"
  by (auto simp: SetRegForOperand_def SetMachineOperandReg_def setRegForValue_def
      insertUsedReg_def getNumOperands_def Let_def split: if_splits sum.splits)

theorem used_register_recorded_witness:
  "SetRegForOperand 0 7
      \<lparr>opCode = 5, operands = [default_MachineOperand, default_MachineOperand],
       numImplicitRefs = 0, regsUsed = {}\<rparr>
     = Inr \<lparr>opCode = 5,
            operands = [default_MachineOperand\<lparr>regNum := 7\<rparr>, default_MachineOperand],
            numImplicitRefs = 0, regsUsed = {7}\<rparr> \<and>
   SetMachineOperandReg (\<lambda>_. \<lparr>Name = ''add'', numOperands = 2, resultPos = 0\<rparr>) 1 5 False
      \<lparr>opCode = 5, operands = [default_MachineOperand, default_MachineOperand],
       numImplicitRefs = 0, regsUsed = {}\<rparr>
     = Inr \<lparr>opCode = 5,
            operands = [default_MachineOperand,
                        \<lparr>opType = MO_MachineRegister, val = NULL, immedVal = 0,
                         regNum = 5, flags = {}\<rparr>],
            numImplicitRefs = 0, regsUsed = {5}\<rparr>"
  using used_register_recorded
          [where i = 0 and r = 7
             and mi = "\<lparr>opCode = 5, operands = [default_MachineOperand, default_MachineOperand],
                         numImplicitRefs = 0, regsUsed = {}\<rparr>"
             and mi' = "\<lparr>opCode = 5,
                          operands = [default_MachineOperand\<lparr>regNum := 7\<rparr>,
                                      default_MachineOperand],
                          numImplicitRefs = 0, regsUsed = {7}\<rparr>"
             and TID = "\<lambda>_. \<lparr>Name = ''add'', numOperands = 2, resultPos = 0\<rparr>"
             and isdef = False]
        used_register_recorded
          [where i = 1 and r = 5
             and mi = "\<lparr>opCode = 5, operands = [default_MachineOperand, default_MachineOperand],
                         numImplicitRefs = 0, regsUsed = {}\<rparr>"
             and TID = "\<lambda>_. \<lparr>Name = ''add'', numOperands = 2, resultPos = 0\<rparr>"
             and isdef = False]
  by (simp add: SetRegForOperand_def SetMachineOperandReg_def setRegForValue_def
      insertUsedReg_def getNumOperands_def default_MachineOperand_def)

text \<open>
  C10. A successful call of any of the three setters at index \<open>i\<close> leaves there an
  operand whose kind, referenced entity, register and flags are given by the call
  alone: the register is \<open>-1\<close> (the given register after
  \<^verbatim>\<open>SetMachineOperandReg\<close>), and the flags are empty but for the definition bit
  that \<^verbatim>\<open>isdef\<close> or the descriptor's result position sets and the def-and-use bit
  that \<^verbatim>\<open>isDefAndUse\<close> sets. So the register bound to the slot before, its
  address-modifier bits and its def/use bits are all discarded.
\<close>

theorem setters_overwrite_operand:
  "(i < length (operands mi) \<longrightarrow>
      (\<exists>mi'. SetMachineOperandVal TID i opTy V isdef isDefAndUse mi = Inr mi' \<and>
         opType (operands mi' ! i) = opTy \<and>
         val (operands mi' ! i) = V \<and>
         regNum (operands mi' ! i) = - 1 \<and>
         flags (operands mi' ! i) =
           (if isdef \<or> resultPos (TID (opCode mi)) = int i then {DEFFLAG} else {}) \<union>
           (if isDefAndUse then {DEFUSEFLAG} else {}) \<and>
         \<not> hasAllocatedReg (operands mi' ! i) \<and>
         \<not> opHiBits32 (operands mi' ! i) \<and> \<not> opLoBits32 (operands mi' ! i) \<and>
         \<not> opHiBits64 (operands mi' ! i) \<and> \<not> opLoBits64 (operands mi' ! i))) \<and>
   (i < getNumOperands mi \<and> resultPos (TID (opCode mi)) \<noteq> int i \<longrightarrow>
      (\<exists>mi'. SetMachineOperandConst TID i operandType intValue mi = Inr mi' \<and>
         opType (operands mi' ! i) = operandType \<and>
         val (operands mi' ! i) = NULL \<and>
         immedVal (operands mi' ! i) = intValue \<and>
         regNum (operands mi' ! i) = - 1 \<and>
         flags (operands mi' ! i) = {} \<and>
         \<not> hasAllocatedReg (operands mi' ! i) \<and>
         \<not> opIsDef (operands mi' ! i) \<and> \<not> opIsDefAndUse (operands mi' ! i) \<and>
         \<not> opHiBits32 (operands mi' ! i) \<and> \<not> opLoBits32 (operands mi' ! i) \<and>
         \<not> opHiBits64 (operands mi' ! i) \<and> \<not> opLoBits64 (operands mi' ! i))) \<and>
   (i < getNumOperands mi \<longrightarrow>
      (\<exists>mi'. SetMachineOperandReg TID i reg isdef mi = Inr mi' \<and>
         opType (operands mi' ! i) = MO_MachineRegister \<and>
         val (operands mi' ! i) = NULL \<and>
         regNum (operands mi' ! i) = reg \<and>
         flags (operands mi' ! i) =
           (if isdef \<or> resultPos (TID (opCode mi)) = int i then {DEFFLAG} else {}) \<and>
         \<not> opIsDefAndUse (operands mi' ! i) \<and>
         \<not> opHiBits32 (operands mi' ! i) \<and> \<not> opLoBits32 (operands mi' ! i) \<and>
         \<not> opHiBits64 (operands mi' ! i) \<and> \<not> opLoBits64 (operands mi' ! i)))"
  by (auto simp: SetMachineOperandVal_def SetMachineOperandConst_def SetMachineOperandReg_def
      insertUsedReg_def getNumOperands_def markDef_def markDefAndUse_def Let_def
      hasAllocatedReg_def opIsDef_def opIsDefAndUse_def
      opHiBits32_def opLoBits32_def opHiBits64_def opLoBits64_def)

theorem setters_overwrite_operand_witness:
  "SetMachineOperandVal (\<lambda>_. \<lparr>Name = ''add'', numOperands = 2, resultPos = 0\<rparr>)
      1 MO_CCRegister 9 False True
      \<lparr>opCode = 5,
       operands = [default_MachineOperand,
                   \<lparr>opType = MO_MachineRegister, val = NULL, immedVal = 0,
                    regNum = 4, flags = {DEFFLAG, HIFLAG32}\<rparr>],
       numImplicitRefs = 0, regsUsed = {4}\<rparr>
     = Inr \<lparr>opCode = 5,
            operands = [default_MachineOperand,
                        \<lparr>opType = MO_CCRegister, val = 9, immedVal = 0,
                         regNum = - 1, flags = {DEFUSEFLAG}\<rparr>],
            numImplicitRefs = 0, regsUsed = {4}\<rparr> \<and>
   SetMachineOperandConst (\<lambda>_. \<lparr>Name = ''add'', numOperands = 2, resultPos = 0\<rparr>)
      1 MO_UnextendedImmed 42
      \<lparr>opCode = 5,
       operands = [default_MachineOperand,
                   \<lparr>opType = MO_MachineRegister, val = NULL, immedVal = 0,
                    regNum = 4, flags = {DEFFLAG, HIFLAG32}\<rparr>],
       numImplicitRefs = 0, regsUsed = {4}\<rparr>
     = Inr \<lparr>opCode = 5,
            operands = [default_MachineOperand,
                        \<lparr>opType = MO_UnextendedImmed, val = NULL, immedVal = 42,
                         regNum = - 1, flags = {}\<rparr>],
            numImplicitRefs = 0, regsUsed = {4}\<rparr> \<and>
   SetMachineOperandReg (\<lambda>_. \<lparr>Name = ''add'', numOperands = 2, resultPos = 0\<rparr>)
      1 6 False
      \<lparr>opCode = 5,
       operands = [default_MachineOperand,
                   \<lparr>opType = MO_MachineRegister, val = NULL, immedVal = 0,
                    regNum = 4, flags = {DEFFLAG, HIFLAG32}\<rparr>],
       numImplicitRefs = 0, regsUsed = {4}\<rparr>
     = Inr \<lparr>opCode = 5,
            operands = [default_MachineOperand,
                        \<lparr>opType = MO_MachineRegister, val = NULL, immedVal = 0,
                         regNum = 6, flags = {}\<rparr>],
            numImplicitRefs = 0, regsUsed = {6, 4}\<rparr>"
  using setters_overwrite_operand
          [where i = 1 and TID = "\<lambda>_. \<lparr>Name = ''add'', numOperands = 2, resultPos = 0\<rparr>"
             and mi = "\<lparr>opCode = 5,
                         operands = [default_MachineOperand,
                                     \<lparr>opType = MO_MachineRegister, val = NULL, immedVal = 0,
                                      regNum = 4, flags = {DEFFLAG, HIFLAG32}\<rparr>],
                         numImplicitRefs = 0, regsUsed = {4}\<rparr>"
             and opTy = MO_CCRegister and V = 9 and isdef = False and isDefAndUse = True
             and operandType = MO_UnextendedImmed and intValue = 42 and reg = 6]
  by (simp add: SetMachineOperandVal_def SetMachineOperandConst_def SetMachineOperandReg_def
      insertUsedReg_def getNumOperands_def markDefAndUse_def)

section \<open>What value substitution does\<close>

text \<open>
  Both loops leave everything but the operand vector alone and keep its length. One
  step of a loop either rewrites the operand under the index and counts it, or leaves
  the state as it is; the lemmas below follow the loops by computation induction and
  give the operand at each position and the count when the loop is done.
\<close>

lemma substituteOperands_frame:
  "opCode (snd (substituteOperands sel old new d Oi s)) = opCode (snd s) \<and>
   numImplicitRefs (snd (substituteOperands sel old new d Oi s)) = numImplicitRefs (snd s) \<and>
   regsUsed (snd (substituteOperands sel old new d Oi s)) = regsUsed (snd s) \<and>
   length (operands (snd (substituteOperands sel old new d Oi s))) = length (operands (snd s))"
proof (induction sel old new d Oi s rule: substituteOperands.induct)
  case (1 sel old new d Oi c mi)
  then show ?case
    by (simp add: substituteOperands.simps[of sel old new d Oi c mi])
qed

lemma substituteOperands_step_hit:
  "Oi < getNumOperands mi \<Longrightarrow> sel (operands mi ! Oi) \<Longrightarrow> val (operands mi ! Oi) = old \<Longrightarrow>
   \<not> d \<or> opIsDef (operands mi ! Oi) \<Longrightarrow>
     substituteOperands sel old new d Oi (c, mi) =
     substituteOperands sel old new d (Suc Oi)
       (Suc c, mi\<lparr>operands := (operands mi)[Oi := (operands mi ! Oi)\<lparr>val := new\<rparr>]\<rparr>)"
  by (simp add: substituteOperands.simps[of sel old new d Oi c mi])

lemma substituteOperands_step_miss:
  "Oi < getNumOperands mi \<Longrightarrow>
   \<not> (sel (operands mi ! Oi) \<and> val (operands mi ! Oi) = old \<and>
      (\<not> d \<or> opIsDef (operands mi ! Oi))) \<Longrightarrow>
     substituteOperands sel old new d Oi (c, mi) =
     substituteOperands sel old new d (Suc Oi) (c, mi)"
  by (auto simp: substituteOperands.simps[of sel old new d Oi c mi])

lemma substituteOperands_step_end:
  "\<not> Oi < getNumOperands mi \<Longrightarrow> substituteOperands sel old new d Oi (c, mi) = (c, mi)"
  by (simp add: substituteOperands.simps[of sel old new d Oi c mi])

lemma substituteOperands_nth:
  "j < length (operands (snd s)) \<Longrightarrow>
     operands (snd (substituteOperands sel old new d Oi s)) ! j =
       (if Oi \<le> j \<and> j < getNumOperands (snd s) \<and> sel (operands (snd s) ! j) \<and>
           val (operands (snd s) ! j) = old \<and> (\<not> d \<or> opIsDef (operands (snd s) ! j))
        then (operands (snd s) ! j)\<lparr>val := new\<rparr> else operands (snd s) ! j)"
proof (induction sel old new d Oi s rule: substituteOperands.induct)
  case (1 sel old new d Oi c mi)
  let ?hit = "\<lambda>mo. sel mo \<and> val mo = old \<and> (\<not> d \<or> opIsDef mo)"
  let ?mi2 = "mi\<lparr>operands := (operands mi)[Oi := (operands mi ! Oi)\<lparr>val := new\<rparr>]\<rparr>"
  have N2: "getNumOperands ?mi2 = getNumOperands mi"
    by (simp add: getNumOperands_def)
  from "1.prems" have j: "j < length (operands mi)" by simp
  show ?case
  proof (cases "Oi < getNumOperands mi")
    case False
    then show ?thesis
      by (simp add: substituteOperands_step_end)
  next
    case inrange: True
    then have Oi: "Oi < length (operands mi)"
      by (simp add: getNumOperands_def)
    show ?thesis
    proof (cases "?hit (operands mi ! Oi)")
      case hit: True
      have run: "substituteOperands sel old new d Oi (c, mi)
                   = substituteOperands sel old new d (Suc Oi) (Suc c, ?mi2)"
        using inrange hit by (simp add: substituteOperands_step_hit)
      from hit have h1: "sel (operands mi ! Oi)" and h2: "val (operands mi ! Oi) = old"
        and h3: "\<not> d \<or> opIsDef (operands mi ! Oi)"
        by simp_all
      have j2: "j < length (operands (snd (Suc c, ?mi2)))"
        using j by simp
      have ih: "operands (snd (substituteOperands sel old new d (Suc Oi) (Suc c, ?mi2))) ! j =
           (if Suc Oi \<le> j \<and> j < getNumOperands ?mi2 \<and> ?hit (operands ?mi2 ! j)
            then (operands ?mi2 ! j)\<lparr>val := new\<rparr> else operands ?mi2 ! j)"
        using "1.IH"(1)[OF inrange h1 h2 h3 j2] by (simp only: snd_conv)
      show ?thesis
      proof (cases "j = Oi")
        case True
        with ih Oi have "operands (snd (substituteOperands sel old new d (Suc Oi) (Suc c, ?mi2))) ! j
                        = (operands mi ! Oi)\<lparr>val := new\<rparr>"
          by simp
        with True hit inrange run show ?thesis
          by simp
      next
        case False
        then have same: "operands ?mi2 ! j = operands mi ! j"
          by simp
        from False have le: "Suc Oi \<le> j \<longleftrightarrow> Oi \<le> j"
          by arith
        have "operands (snd (substituteOperands sel old new d Oi (c, mi))) ! j =
           (if Oi \<le> j \<and> j < getNumOperands mi \<and> ?hit (operands mi ! j)
            then (operands mi ! j)\<lparr>val := new\<rparr> else operands mi ! j)"
          by (simp only: run ih same N2 le)
        then show ?thesis
          by (simp only: snd_conv)
      qed
    next
      case miss: False
      have run: "substituteOperands sel old new d Oi (c, mi)
                   = substituteOperands sel old new d (Suc Oi) (c, mi)"
        using inrange miss by (simp add: substituteOperands_step_miss)
      have ih: "operands (snd (substituteOperands sel old new d (Suc Oi) (c, mi))) ! j =
           (if Suc Oi \<le> j \<and> j < getNumOperands mi \<and> ?hit (operands mi ! j)
            then (operands mi ! j)\<lparr>val := new\<rparr> else operands mi ! j)"
      proof (cases "sel (operands mi ! Oi)")
        case False
        show ?thesis
          using "1.IH"(4)[OF inrange False "1.prems"] by (simp only: snd_conv)
      next
        case s: True
        show ?thesis
        proof (cases "val (operands mi ! Oi) = old")
          case False
          show ?thesis
            using "1.IH"(3)[OF inrange s False "1.prems"] by (simp only: snd_conv)
        next
          case True
          with miss s have nd: "\<not> (\<not> d \<or> opIsDef (operands mi ! Oi))" by simp
          show ?thesis
            using "1.IH"(2)[OF inrange s True nd "1.prems"] by (simp only: snd_conv)
        qed
      qed
      show ?thesis
      proof (cases "j = Oi")
        case True
        with ih miss run show ?thesis by auto
      next
        case False
        then have le: "Suc Oi \<le> j \<longleftrightarrow> Oi \<le> j"
          by arith
        have "operands (snd (substituteOperands sel old new d Oi (c, mi))) ! j =
           (if Oi \<le> j \<and> j < getNumOperands mi \<and> ?hit (operands mi ! j)
            then (operands mi ! j)\<lparr>val := new\<rparr> else operands mi ! j)"
          by (simp only: run ih le)
        then show ?thesis
          by (simp only: snd_conv)
      qed
    qed
  qed
qed

lemma substituteOperands_count:
  "fst (substituteOperands sel old new d Oi s) =
     fst s + length (filter (\<lambda>j. sel (operands (snd s) ! j) \<and>
                                 val (operands (snd s) ! j) = old \<and>
                                 (\<not> d \<or> opIsDef (operands (snd s) ! j)))
                      [Oi..<getNumOperands (snd s)])"
proof (induction sel old new d Oi s rule: substituteOperands.induct)
  case (1 sel old new d Oi c mi)
  let ?hit = "\<lambda>mo. sel mo \<and> val mo = old \<and> (\<not> d \<or> opIsDef mo)"
  let ?mi2 = "mi\<lparr>operands := (operands mi)[Oi := (operands mi ! Oi)\<lparr>val := new\<rparr>]\<rparr>"
  have N2: "getNumOperands ?mi2 = getNumOperands mi"
    by (simp add: getNumOperands_def)
  show ?case
  proof (cases "Oi < getNumOperands mi")
    case False
    then show ?thesis
      by (simp add: substituteOperands_step_end)
  next
    case inrange: True
    then have upt: "[Oi..<getNumOperands mi] = Oi # [Suc Oi..<getNumOperands mi]"
      by (simp add: upt_conv_Cons)
    show ?thesis
    proof (cases "?hit (operands mi ! Oi)")
      case hit: True
      have run: "substituteOperands sel old new d Oi (c, mi)
                   = substituteOperands sel old new d (Suc Oi) (Suc c, ?mi2)"
        using inrange hit by (simp add: substituteOperands_step_hit)
      have same: "filter (\<lambda>j. ?hit (operands ?mi2 ! j)) [Suc Oi..<getNumOperands mi]
                  = filter (\<lambda>j. ?hit (operands mi ! j)) [Suc Oi..<getNumOperands mi]"
        by (rule filter_cong) auto
      from hit have h1: "sel (operands mi ! Oi)" and h2: "val (operands mi ! Oi) = old"
        and h3: "\<not> d \<or> opIsDef (operands mi ! Oi)"
        by simp_all
      have ih: "fst (substituteOperands sel old new d (Suc Oi) (Suc c, ?mi2)) =
              Suc c + length (filter (\<lambda>j. ?hit (operands ?mi2 ! j))
                                [Suc Oi..<getNumOperands ?mi2])"
        using "1.IH"(1)[OF inrange h1 h2 h3] by (simp only: snd_conv fst_conv)
      have "fst (substituteOperands sel old new d Oi (c, mi)) =
              Suc c + length (filter (\<lambda>j. ?hit (operands ?mi2 ! j))
                                [Suc Oi..<getNumOperands ?mi2])"
        by (simp only: run ih)
      also have "\<dots> = Suc c + length (filter (\<lambda>j. ?hit (operands mi ! j))
                                [Suc Oi..<getNumOperands mi])"
        by (simp only: N2 same)
      also have "\<dots> = c + length (filter (\<lambda>j. ?hit (operands mi ! j))
                                [Oi..<getNumOperands mi])"
        using hit by (simp add: upt)
      finally show ?thesis
        by simp
    next
      case miss: False
      have run: "substituteOperands sel old new d Oi (c, mi)
                   = substituteOperands sel old new d (Suc Oi) (c, mi)"
        using inrange miss by (simp add: substituteOperands_step_miss)
      have ih: "fst (substituteOperands sel old new d (Suc Oi) (c, mi)) =
              c + length (filter (\<lambda>j. ?hit (operands mi ! j)) [Suc Oi..<getNumOperands mi])"
      proof (cases "sel (operands mi ! Oi)")
        case False
        show ?thesis
          using "1.IH"(4)[OF inrange False] by (simp only: snd_conv fst_conv)
      next
        case s: True
        show ?thesis
        proof (cases "val (operands mi ! Oi) = old")
          case False
          show ?thesis
            using "1.IH"(3)[OF inrange s False] by (simp only: snd_conv fst_conv)
        next
          case True
          with miss s have nd: "\<not> (\<not> d \<or> opIsDef (operands mi ! Oi))" by simp
          show ?thesis
            using "1.IH"(2)[OF inrange s True nd] by (simp only: snd_conv fst_conv)
        qed
      qed
      show ?thesis
        using miss by (simp add: run ih upt)
    qed
  qed
qed


lemma substituteImplicitRefs_frame:
  "opCode (snd (substituteImplicitRefs old new d N i s)) = opCode (snd s) \<and>
   numImplicitRefs (snd (substituteImplicitRefs old new d N i s)) = numImplicitRefs (snd s) \<and>
   regsUsed (snd (substituteImplicitRefs old new d N i s)) = regsUsed (snd s) \<and>
   length (operands (snd (substituteImplicitRefs old new d N i s))) = length (operands (snd s))"
proof (induction old new d N i s rule: substituteImplicitRefs.induct)
  case (1 old new d N i c mi)
  then show ?case
    by (simp add: substituteImplicitRefs.simps[of old new d N i c mi])
qed

lemma substituteImplicitRefs_step_hit:
  "i < N \<Longrightarrow> getImplicitRef mi i = old \<Longrightarrow> \<not> d \<or> implicitRefIsDefined mi i \<Longrightarrow>
     substituteImplicitRefs old new d N i (c, mi) =
     substituteImplicitRefs old new d N (Suc i)
       (Suc c, mi\<lparr>operands := (operands mi)
                    [implicitOpIndex mi i := (getImplicitOp mi i)\<lparr>val := new\<rparr>]\<rparr>)"
  by (simp add: substituteImplicitRefs.simps[of old new d N i c mi])

lemma substituteImplicitRefs_step_miss:
  "i < N \<Longrightarrow> \<not> (getImplicitRef mi i = old \<and> (\<not> d \<or> implicitRefIsDefined mi i)) \<Longrightarrow>
     substituteImplicitRefs old new d N i (c, mi) =
     substituteImplicitRefs old new d N (Suc i) (c, mi)"
  by (auto simp: substituteImplicitRefs.simps[of old new d N i c mi])

lemma substituteImplicitRefs_step_end:
  "\<not> i < N \<Longrightarrow> substituteImplicitRefs old new d N i (c, mi) = (c, mi)"
  by (simp add: substituteImplicitRefs.simps[of old new d N i c mi])

lemma implicitOp_at:
  assumes "numImplicitRefs mi \<le> length (operands mi)"
  shows "implicitOpIndex mi i = getNumOperands mi + i"
    and "getImplicitOp mi i = operands mi ! (getNumOperands mi + i)"
    and "getImplicitRef mi i = val (operands mi ! (getNumOperands mi + i))"
    and "implicitRefIsDefined mi i = opIsDef (operands mi ! (getNumOperands mi + i))"
proof -
  from assms show idx: "implicitOpIndex mi i = getNumOperands mi + i"
    unfolding implicitOpIndex_def getNumOperands_def by arith
  then show "getImplicitOp mi i = operands mi ! (getNumOperands mi + i)"
    and "getImplicitRef mi i = val (operands mi ! (getNumOperands mi + i))"
    and "implicitRefIsDefined mi i = opIsDef (operands mi ! (getNumOperands mi + i))"
    by (simp_all add: getImplicitOp_def getImplicitRef_def implicitRefIsDefined_def)
qed

lemma substituteImplicitRefs_nth:
  "numImplicitRefs (snd s) \<le> length (operands (snd s)) \<Longrightarrow> N \<le> numImplicitRefs (snd s) \<Longrightarrow>
   j < length (operands (snd s)) \<Longrightarrow>
     operands (snd (substituteImplicitRefs old new d N i s)) ! j =
       (if getNumOperands (snd s) + i \<le> j \<and> j < getNumOperands (snd s) + N \<and>
           val (operands (snd s) ! j) = old \<and> (\<not> d \<or> opIsDef (operands (snd s) ! j))
        then (operands (snd s) ! j)\<lparr>val := new\<rparr> else operands (snd s) ! j)"
proof (induction old new d N i s rule: substituteImplicitRefs.induct)
  case (1 old new d N i c mi)
  let ?hit = "\<lambda>mo. val mo = old \<and> (\<not> d \<or> opIsDef mo)"
  let ?B = "getNumOperands mi"
  let ?k = "?B + i"
  let ?mi2 = "mi\<lparr>operands := (operands mi)[?k := (operands mi ! ?k)\<lparr>val := new\<rparr>]\<rparr>"
  from "1.prems" have wf: "numImplicitRefs mi \<le> length (operands mi)"
    and N: "N \<le> numImplicitRefs mi" and j: "j < length (operands mi)"
    by simp_all
  note at = implicitOp_at[OF wf, of i]
  have N2: "getNumOperands ?mi2 = ?B"
    by (simp add: getNumOperands_def)
  show ?case
  proof (cases "i < N")
    case False
    then show ?thesis
      by (simp add: substituteImplicitRefs_step_end)
  next
    case inrange: True
    with wf N have k: "?k < length (operands mi)"
      by (simp add: getNumOperands_def)
    show ?thesis
    proof (cases "?hit (operands mi ! ?k)")
      case hit: True
      then have h1: "getImplicitRef mi i = old" and h2: "\<not> d \<or> implicitRefIsDefined mi i"
        by (simp_all add: at)
      have run: "substituteImplicitRefs old new d N i (c, mi)
                   = substituteImplicitRefs old new d N (Suc i) (Suc c, ?mi2)"
        using substituteImplicitRefs_step_hit[OF inrange h1 h2] by (simp only: at)
      have p2: "numImplicitRefs (snd (Suc c, ?mi2)) \<le> length (operands (snd (Suc c, ?mi2)))"
        "N \<le> numImplicitRefs (snd (Suc c, ?mi2))"
        "j < length (operands (snd (Suc c, ?mi2)))"
        using wf N j by simp_all
      have ih: "operands (snd (substituteImplicitRefs old new d N (Suc i) (Suc c, ?mi2))) ! j =
           (if getNumOperands ?mi2 + Suc i \<le> j \<and> j < getNumOperands ?mi2 + N \<and>
               ?hit (operands ?mi2 ! j)
            then (operands ?mi2 ! j)\<lparr>val := new\<rparr> else operands ?mi2 ! j)"
        using "1.IH"(1)[OF inrange h1 h2, unfolded at, OF p2] by (simp only: snd_conv)
      show ?thesis
      proof (cases "j = ?k")
        case True
        with ih k N2 have "operands (snd (substituteImplicitRefs old new d N (Suc i) (Suc c, ?mi2))) ! j
                        = (operands mi ! ?k)\<lparr>val := new\<rparr>"
          by simp
        with True hit inrange run show ?thesis
          by simp
      next
        case False
        then have same: "operands ?mi2 ! j = operands mi ! j"
          by simp
        from False have le: "?B + Suc i \<le> j \<longleftrightarrow> ?B + i \<le> j"
          by arith
        have "operands (snd (substituteImplicitRefs old new d N i (c, mi))) ! j =
           (if ?B + i \<le> j \<and> j < ?B + N \<and> ?hit (operands mi ! j)
            then (operands mi ! j)\<lparr>val := new\<rparr> else operands mi ! j)"
          by (simp only: run ih same N2 le)
        then show ?thesis
          by (simp only: snd_conv)
      qed
    next
      case miss: False
      then have m: "\<not> (getImplicitRef mi i = old \<and> (\<not> d \<or> implicitRefIsDefined mi i))"
        by (simp add: at)
      have run: "substituteImplicitRefs old new d N i (c, mi)
                   = substituteImplicitRefs old new d N (Suc i) (c, mi)"
        using substituteImplicitRefs_step_miss[OF inrange m] .
      have ih: "operands (snd (substituteImplicitRefs old new d N (Suc i) (c, mi))) ! j =
           (if ?B + Suc i \<le> j \<and> j < ?B + N \<and> ?hit (operands mi ! j)
            then (operands mi ! j)\<lparr>val := new\<rparr> else operands mi ! j)"
      proof (cases "getImplicitRef mi i = old")
        case False
        show ?thesis
          using "1.IH"(3)[OF inrange False "1.prems"] by (simp only: snd_conv)
      next
        case True
        with m have nd: "\<not> (\<not> d \<or> implicitRefIsDefined mi i)" by simp
        show ?thesis
          using "1.IH"(2)[OF inrange True nd "1.prems"] by (simp only: snd_conv)
      qed
      show ?thesis
      proof (cases "j = ?k")
        case True
        with ih miss run show ?thesis by auto
      next
        case False
        then have le: "?B + Suc i \<le> j \<longleftrightarrow> ?B + i \<le> j"
          by arith
        have "operands (snd (substituteImplicitRefs old new d N i (c, mi))) ! j =
           (if ?B + i \<le> j \<and> j < ?B + N \<and> ?hit (operands mi ! j)
            then (operands mi ! j)\<lparr>val := new\<rparr> else operands mi ! j)"
          by (simp only: run ih le)
        then show ?thesis
          by (simp only: snd_conv)
      qed
    qed
  qed
qed

lemma substituteImplicitRefs_count:
  "numImplicitRefs (snd s) \<le> length (operands (snd s)) \<Longrightarrow> N \<le> numImplicitRefs (snd s) \<Longrightarrow>
   fst (substituteImplicitRefs old new d N i s) =
     fst s + length (filter (\<lambda>j. val (operands (snd s) ! j) = old \<and>
                                 (\<not> d \<or> opIsDef (operands (snd s) ! j)))
                      [getNumOperands (snd s) + i..<getNumOperands (snd s) + N])"
proof (induction old new d N i s rule: substituteImplicitRefs.induct)
  case (1 old new d N i c mi)
  let ?hit = "\<lambda>mo. val mo = old \<and> (\<not> d \<or> opIsDef mo)"
  let ?B = "getNumOperands mi"
  let ?k = "?B + i"
  let ?mi2 = "mi\<lparr>operands := (operands mi)[?k := (operands mi ! ?k)\<lparr>val := new\<rparr>]\<rparr>"
  from "1.prems" have wf: "numImplicitRefs mi \<le> length (operands mi)"
    and N: "N \<le> numImplicitRefs mi"
    by simp_all
  note at = implicitOp_at[OF wf, of i]
  have N2: "getNumOperands ?mi2 = ?B"
    by (simp add: getNumOperands_def)
  show ?case
  proof (cases "i < N")
    case False
    then show ?thesis
      by (simp add: substituteImplicitRefs_step_end)
  next
    case inrange: True
    then have upt: "[?B + i..<?B + N] = (?B + i) # [?B + Suc i..<?B + N]"
      by (simp add: upt_conv_Cons)
    show ?thesis
    proof (cases "?hit (operands mi ! ?k)")
      case hit: True
      then have h1: "getImplicitRef mi i = old" and h2: "\<not> d \<or> implicitRefIsDefined mi i"
        by (simp_all add: at)
      have run: "substituteImplicitRefs old new d N i (c, mi)
                   = substituteImplicitRefs old new d N (Suc i) (Suc c, ?mi2)"
        using substituteImplicitRefs_step_hit[OF inrange h1 h2] by (simp only: at)
      have p2: "numImplicitRefs (snd (Suc c, ?mi2)) \<le> length (operands (snd (Suc c, ?mi2)))"
        "N \<le> numImplicitRefs (snd (Suc c, ?mi2))"
        using wf N by simp_all
      have same: "filter (\<lambda>j. ?hit (operands ?mi2 ! j)) [?B + Suc i..<?B + N]
                  = filter (\<lambda>j. ?hit (operands mi ! j)) [?B + Suc i..<?B + N]"
        by (rule filter_cong) auto
      have ih: "fst (substituteImplicitRefs old new d N (Suc i) (Suc c, ?mi2)) =
              Suc c + length (filter (\<lambda>j. ?hit (operands ?mi2 ! j))
                                [getNumOperands ?mi2 + Suc i..<getNumOperands ?mi2 + N])"
        using "1.IH"(1)[OF inrange h1 h2, unfolded at, OF p2] by (simp only: snd_conv fst_conv)
      have "fst (substituteImplicitRefs old new d N i (c, mi)) =
              Suc c + length (filter (\<lambda>j. ?hit (operands ?mi2 ! j))
                                [getNumOperands ?mi2 + Suc i..<getNumOperands ?mi2 + N])"
        by (simp only: run ih)
      also have "\<dots> = Suc c + length (filter (\<lambda>j. ?hit (operands mi ! j))
                                [?B + Suc i..<?B + N])"
        by (simp only: N2 same)
      also have "\<dots> = c + length (filter (\<lambda>j. ?hit (operands mi ! j)) [?B + i..<?B + N])"
        using hit by (simp add: upt)
      finally show ?thesis
        by simp
    next
      case miss: False
      then have m: "\<not> (getImplicitRef mi i = old \<and> (\<not> d \<or> implicitRefIsDefined mi i))"
        by (simp add: at)
      have run: "substituteImplicitRefs old new d N i (c, mi)
                   = substituteImplicitRefs old new d N (Suc i) (c, mi)"
        using substituteImplicitRefs_step_miss[OF inrange m] .
      have ih: "fst (substituteImplicitRefs old new d N (Suc i) (c, mi)) =
              c + length (filter (\<lambda>j. ?hit (operands mi ! j)) [?B + Suc i..<?B + N])"
      proof (cases "getImplicitRef mi i = old")
        case False
        show ?thesis
          using "1.IH"(3)[OF inrange False "1.prems"] by (simp only: snd_conv fst_conv)
      next
        case True
        with m have nd: "\<not> (\<not> d \<or> implicitRefIsDefined mi i)" by simp
        show ?thesis
          using "1.IH"(2)[OF inrange True nd "1.prems"] by (simp only: snd_conv fst_conv)
      qed
      show ?thesis
        using miss by (simp add: run ih upt)
    qed
  qed
qed


lemma take_as_nth: "n \<le> length xs \<Longrightarrow> take n xs = map ((!) xs) [0..<n]"
  by (rule nth_equalityI) auto

lemma drop_as_nth: "drop n xs = map ((!) xs) [n..<length xs]"
  by (rule nth_equalityI) auto

lemma substituteValue_closed_form:
  assumes wf: "numImplicitRefs mi \<le> length (operands mi)"
  shows "substituteValue sel old new d mi =
     (length (filter (\<lambda>mo. sel mo \<and> val mo = old \<and> (\<not> d \<or> opIsDef mo))
                (take (getNumOperands mi) (operands mi))) +
      length (filter (\<lambda>mo. val mo = old \<and> (\<not> d \<or> opIsDef mo))
                (drop (getNumOperands mi) (operands mi))),
      mi\<lparr>operands :=
           map (\<lambda>mo. if sel mo \<and> val mo = old \<and> (\<not> d \<or> opIsDef mo)
                      then mo\<lparr>val := new\<rparr> else mo)
             (take (getNumOperands mi) (operands mi)) @
           map (\<lambda>mo. if val mo = old \<and> (\<not> d \<or> opIsDef mo)
                      then mo\<lparr>val := new\<rparr> else mo)
             (drop (getNumOperands mi) (operands mi))\<rparr>)"
proof -
  let ?hitO = "\<lambda>mo. sel mo \<and> val mo = old \<and> (\<not> d \<or> opIsDef mo)"
  let ?hitI = "\<lambda>mo. val mo = old \<and> (\<not> d \<or> opIsDef mo)"
  let ?N = "getNumOperands mi"
  let ?M = "numImplicitRefs mi"
  let ?ops = "operands mi"
  let ?s1 = "substituteOperands sel old new d 0 (0, mi)"
  let ?s2 = "substituteImplicitRefs old new d ?M 0 ?s1"
  have NM: "?N + ?M = length ?ops" and NL: "?N \<le> length ?ops"
    using wf by (simp_all add: getNumOperands_def)
  have f1: "opCode (snd ?s1) = opCode mi" "numImplicitRefs (snd ?s1) = ?M"
    "regsUsed (snd ?s1) = regsUsed mi" "length (operands (snd ?s1)) = length ?ops"
    using substituteOperands_frame[of sel old new d 0 "(0, mi)"] by simp_all
  then have N1: "getNumOperands (snd ?s1) = ?N"
    by (simp add: getNumOperands_def)
  have nth1: "operands (snd ?s1) ! j =
                (if j < ?N \<and> ?hitO (?ops ! j) then (?ops ! j)\<lparr>val := new\<rparr> else ?ops ! j)"
    if "j < length ?ops" for j
    using substituteOperands_nth[of j "(0, mi)" sel old new d 0] that
    by (simp only: snd_conv le0 simp_thms)
  have c1: "fst ?s1 = length (filter (\<lambda>j. ?hitO (?ops ! j)) [0..<?N])"
    using substituteOperands_count[of sel old new d 0 "(0, mi)"] by simp
  have sv: "substituteValue sel old new d mi = ?s2"
    by (simp add: substituteValue_def Let_def getNumImplicitRefs_def f1)
  have f2: "opCode (snd ?s2) = opCode mi" "numImplicitRefs (snd ?s2) = ?M"
    "regsUsed (snd ?s2) = regsUsed mi" "length (operands (snd ?s2)) = length ?ops"
    using substituteImplicitRefs_frame[of old new d ?M 0 ?s1] f1 by simp_all
  have wf1: "numImplicitRefs (snd ?s1) \<le> length (operands (snd ?s1))"
    and M1: "?M \<le> numImplicitRefs (snd ?s1)"
    using wf f1 by simp_all
  have nth2: "operands (snd ?s2) ! j =
                (if j < ?N
                 then (if ?hitO (?ops ! j) then (?ops ! j)\<lparr>val := new\<rparr> else ?ops ! j)
                 else (if ?hitI (?ops ! j) then (?ops ! j)\<lparr>val := new\<rparr> else ?ops ! j))"
    if j: "j < length ?ops" for j
  proof -
    from j f1 have j1: "j < length (operands (snd ?s1))" by simp
    note a = substituteImplicitRefs_nth[OF wf1 M1 j1, of old new d 0, unfolded N1]
    show ?thesis
    proof (cases "j < ?N")
      case True
      with a nth1[OF j] show ?thesis by auto
    next
      case False
      with j NM have "?N \<le> j" "j < ?N + ?M" by simp_all
      with a nth1[OF j] False show ?thesis by auto
    qed
  qed
  have c2: "fst ?s2 = length (filter (\<lambda>j. ?hitO (?ops ! j)) [0..<?N]) +
                      length (filter (\<lambda>j. ?hitI (?ops ! j)) [?N..<length ?ops])"
  proof -
    have same: "filter (\<lambda>j. ?hitI (operands (snd ?s1) ! j)) [?N..<length ?ops]
                = filter (\<lambda>j. ?hitI (?ops ! j)) [?N..<length ?ops]"
      by (rule filter_cong) (simp_all add: nth1)
    have "fst ?s2 = fst ?s1 +
            length (filter (\<lambda>j. ?hitI (operands (snd ?s1) ! j)) [?N + 0..<?N + ?M])"
      using substituteImplicitRefs_count[OF wf1 M1, of old new d 0] by (simp only: N1)
    also have "\<dots> = fst ?s1 +
            length (filter (\<lambda>j. ?hitI (operands (snd ?s1) ! j)) [?N..<length ?ops])"
      by (simp only: NM add_0_right)
    finally show ?thesis
      by (simp only: same c1)
  qed
  have cnt: "fst ?s2 = length (filter ?hitO (take ?N ?ops)) + length (filter ?hitI (drop ?N ?ops))"
    unfolding c2 take_as_nth[OF NL] drop_as_nth[of ?N ?ops]
    by (simp add: filter_map comp_def)
  have ops: "operands (snd ?s2) =
               map (\<lambda>mo. if ?hitO mo then mo\<lparr>val := new\<rparr> else mo) (take ?N ?ops) @
               map (\<lambda>mo. if ?hitI mo then mo\<lparr>val := new\<rparr> else mo) (drop ?N ?ops)"
  proof (rule nth_equalityI)
    show "length (operands (snd ?s2)) =
            length (map (\<lambda>mo. if ?hitO mo then mo\<lparr>val := new\<rparr> else mo) (take ?N ?ops) @
                    map (\<lambda>mo. if ?hitI mo then mo\<lparr>val := new\<rparr> else mo) (drop ?N ?ops))"
      using f2 NL by simp
  next
    fix j assume "j < length (operands (snd ?s2))"
    with f2 have j: "j < length ?ops" by simp
    show "operands (snd ?s2) ! j =
            (map (\<lambda>mo. if ?hitO mo then mo\<lparr>val := new\<rparr> else mo) (take ?N ?ops) @
             map (\<lambda>mo. if ?hitI mo then mo\<lparr>val := new\<rparr> else mo) (drop ?N ?ops)) ! j"
    proof (cases "j < ?N")
      case True
      with j NL show ?thesis
        by (auto simp: nth2[OF j] nth_append)
    next
      case False
      with j NL show ?thesis
        by (auto simp: nth2[OF j] nth_append min_def)
    qed
  qed
  have "snd ?s2 = mi\<lparr>operands := operands (snd ?s2)\<rparr>"
    using f2 by (intro MachineInstr.equality) simp_all
  then have "?s2 = (fst ?s2, mi\<lparr>operands := operands (snd ?s2)\<rparr>)"
    by (metis prod.collapse)
  then show ?thesis
    unfolding sv cnt[symmetric] ops[symmetric] .
qed


lemma substituteValue_nth:
  assumes wf: "numImplicitRefs mi \<le> length (operands mi)"
    and j: "j < length (operands mi)"
  shows "operands (snd (substituteValue sel old new d mi)) ! j =
           (if (j < getNumOperands mi \<longrightarrow> sel (operands mi ! j)) \<and>
               val (operands mi ! j) = old \<and> (\<not> d \<or> opIsDef (operands mi ! j))
            then (operands mi ! j)\<lparr>val := new\<rparr> else operands mi ! j)"
proof -
  have NL: "getNumOperands mi \<le> length (operands mi)"
    by (simp add: getNumOperands_def)
  show ?thesis
  proof (cases "j < getNumOperands mi")
    case True
    with j NL show ?thesis
      by (auto simp: substituteValue_closed_form[OF wf] nth_append)
  next
    case False
    with j NL show ?thesis
      by (auto simp: substituteValue_closed_form[OF wf] nth_append min_def)
  qed
qed

text \<open>
  C1. On every instruction (its operand vector holding at least its
  \<^verbatim>\<open>numImplicitRefs\<close> implicit operands), \<^verbatim>\<open>substituteValue\<close> rewrites to
  \<open>newVal\<close> the reference of every explicit operand carrying a symbolic reference and
  of every implicit reference, wherever the reference equals \<open>oldVal\<close> and
  \<open>defsOnly\<close> is false or the entry is a definition; all other entries stay as they
  are, explicit operands come first and implicit references after them, and the number
  returned is the number of entries rewritten. In particular, with operands
  \<open>[use(a), def(a)]\<close> (two operands carrying a reference to \<open>a\<close>, the second a
  definition and the first not) and one implicit \<open>use(a)\<close>:
  \<open>substituteValue(a, b, false)\<close> returns 3 and leaves all three referencing \<open>b\<close>;
  the same call repeated on the result returns 0 and changes nothing, \<open>b\<close> being
  another entity than \<open>a\<close>; and \<open>substituteValue(a, b, true)\<close> on the starting
  instruction returns 1 and changes the \<open>def(a)\<close> operand only.
\<close>

theorem substituteValue_rewrites_and_counts:
  "(numImplicitRefs mi \<le> length (operands mi) \<longrightarrow>
      substituteValue carriesValue oldVal newVal defsOnly mi =
        (length (filter (\<lambda>mo. carriesValue mo \<and> val mo = oldVal \<and>
                               (\<not> defsOnly \<or> opIsDef mo))
                   (take (getNumOperands mi) (operands mi))) +
         length (filter (\<lambda>mo. val mo = oldVal \<and> (\<not> defsOnly \<or> opIsDef mo))
                   (drop (getNumOperands mi) (operands mi))),
         mi\<lparr>operands :=
              map (\<lambda>mo. if carriesValue mo \<and> val mo = oldVal \<and> (\<not> defsOnly \<or> opIsDef mo)
                         then mo\<lparr>val := newVal\<rparr> else mo)
                (take (getNumOperands mi) (operands mi)) @
              map (\<lambda>mo. if val mo = oldVal \<and> (\<not> defsOnly \<or> opIsDef mo)
                         then mo\<lparr>val := newVal\<rparr> else mo)
                (drop (getNumOperands mi) (operands mi))\<rparr>)) \<and>
   (carriesValue use_a \<and> val use_a = a \<and> \<not> opIsDef use_a \<and>
    carriesValue def_a \<and> val def_a = a \<and> opIsDef def_a \<and>
    val implicit_a = a \<and> \<not> opIsDef implicit_a \<longrightarrow>
      substituteValue carriesValue a b False
          \<lparr>opCode = opc, operands = [use_a, def_a, implicit_a],
           numImplicitRefs = 1, regsUsed = regs\<rparr>
        = (3, \<lparr>opCode = opc,
               operands = [use_a\<lparr>val := b\<rparr>, def_a\<lparr>val := b\<rparr>, implicit_a\<lparr>val := b\<rparr>],
               numImplicitRefs = 1, regsUsed = regs\<rparr>) \<and>
      (a \<noteq> b \<longrightarrow>
         substituteValue carriesValue a b False
             \<lparr>opCode = opc,
              operands = [use_a\<lparr>val := b\<rparr>, def_a\<lparr>val := b\<rparr>, implicit_a\<lparr>val := b\<rparr>],
              numImplicitRefs = 1, regsUsed = regs\<rparr>
           = (0, \<lparr>opCode = opc,
                  operands = [use_a\<lparr>val := b\<rparr>, def_a\<lparr>val := b\<rparr>,
                              implicit_a\<lparr>val := b\<rparr>],
                  numImplicitRefs = 1, regsUsed = regs\<rparr>)) \<and>
      substituteValue carriesValue a b True
          \<lparr>opCode = opc, operands = [use_a, def_a, implicit_a],
           numImplicitRefs = 1, regsUsed = regs\<rparr>
        = (1, \<lparr>opCode = opc,
               operands = [use_a, def_a\<lparr>val := b\<rparr>, implicit_a],
               numImplicitRefs = 1, regsUsed = regs\<rparr>))"
proof (intro conjI impI)
  assume "numImplicitRefs mi \<le> length (operands mi)"
  then show "substituteValue carriesValue oldVal newVal defsOnly mi =
        (length (filter (\<lambda>mo. carriesValue mo \<and> val mo = oldVal \<and>
                               (\<not> defsOnly \<or> opIsDef mo))
                   (take (getNumOperands mi) (operands mi))) +
         length (filter (\<lambda>mo. val mo = oldVal \<and> (\<not> defsOnly \<or> opIsDef mo))
                   (drop (getNumOperands mi) (operands mi))),
         mi\<lparr>operands :=
              map (\<lambda>mo. if carriesValue mo \<and> val mo = oldVal \<and> (\<not> defsOnly \<or> opIsDef mo)
                         then mo\<lparr>val := newVal\<rparr> else mo)
                (take (getNumOperands mi) (operands mi)) @
              map (\<lambda>mo. if val mo = oldVal \<and> (\<not> defsOnly \<or> opIsDef mo)
                         then mo\<lparr>val := newVal\<rparr> else mo)
                (drop (getNumOperands mi) (operands mi))\<rparr>)"
    by (rule substituteValue_closed_form)
next
  assume ex: "carriesValue use_a \<and> val use_a = a \<and> \<not> opIsDef use_a \<and>
    carriesValue def_a \<and> val def_a = a \<and> opIsDef def_a \<and>
    val implicit_a = a \<and> \<not> opIsDef implicit_a"
  let ?mi = "\<lparr>opCode = opc, operands = [use_a, def_a, implicit_a],
              numImplicitRefs = 1, regsUsed = regs\<rparr>"
  let ?mi' = "\<lparr>opCode = opc,
               operands = [use_a\<lparr>val := b\<rparr>, def_a\<lparr>val := b\<rparr>, implicit_a\<lparr>val := b\<rparr>],
               numImplicitRefs = 1, regsUsed = regs\<rparr>"
  have wf: "numImplicitRefs ?mi \<le> length (operands ?mi)"
    and wf': "numImplicitRefs ?mi' \<le> length (operands ?mi')"
    by simp_all
  from ex show "substituteValue carriesValue a b False ?mi = (3, ?mi')"
    by (subst substituteValue_closed_form[OF wf]) (simp add: getNumOperands_def)
  show "substituteValue carriesValue a b False ?mi' = (0, ?mi')" if "a \<noteq> b"
    using ex that
    by (subst substituteValue_closed_form[OF wf']) (auto simp: getNumOperands_def)
  from ex show "substituteValue carriesValue a b True ?mi
        = (1, \<lparr>opCode = opc, operands = [use_a, def_a\<lparr>val := b\<rparr>, implicit_a],
               numImplicitRefs = 1, regsUsed = regs\<rparr>)"
    by (subst substituteValue_closed_form[OF wf]) (simp add: getNumOperands_def)
qed

text \<open>
  The example at a virtual-register use, a condition-code definition and an implicit
  use of entity 5, and an instruction whose displacement operand references entity 5
  beside an immediate and a virtual register referencing another entity.
\<close>

theorem substituteValue_rewrites_and_counts_witness:
  "substituteValue carriesValue 5 6 False
      \<lparr>opCode = 2,
       operands =
         [\<lparr>opType = MO_VirtualRegister, val = 5, immedVal = 0, regNum = - 1, flags = {}\<rparr>,
          \<lparr>opType = MO_CCRegister, val = 5, immedVal = 0, regNum = - 1,
           flags = {DEFFLAG}\<rparr>,
          \<lparr>opType = MO_VirtualRegister, val = 5, immedVal = 0, regNum = - 1, flags = {}\<rparr>],
       numImplicitRefs = 1, regsUsed = {}\<rparr>
     = (3, \<lparr>opCode = 2,
            operands =
              [\<lparr>opType = MO_VirtualRegister, val = 6, immedVal = 0, regNum = - 1, flags = {}\<rparr>,
               \<lparr>opType = MO_CCRegister, val = 6, immedVal = 0, regNum = - 1,
                flags = {DEFFLAG}\<rparr>,
               \<lparr>opType = MO_VirtualRegister, val = 6, immedVal = 0, regNum = - 1,
                flags = {}\<rparr>],
            numImplicitRefs = 1, regsUsed = {}\<rparr>) \<and>
   substituteValue carriesValue 5 6 False
      \<lparr>opCode = 2,
       operands =
         [\<lparr>opType = MO_VirtualRegister, val = 6, immedVal = 0, regNum = - 1, flags = {}\<rparr>,
          \<lparr>opType = MO_CCRegister, val = 6, immedVal = 0, regNum = - 1,
           flags = {DEFFLAG}\<rparr>,
          \<lparr>opType = MO_VirtualRegister, val = 6, immedVal = 0, regNum = - 1, flags = {}\<rparr>],
       numImplicitRefs = 1, regsUsed = {}\<rparr>
     = (0, \<lparr>opCode = 2,
            operands =
              [\<lparr>opType = MO_VirtualRegister, val = 6, immedVal = 0, regNum = - 1, flags = {}\<rparr>,
               \<lparr>opType = MO_CCRegister, val = 6, immedVal = 0, regNum = - 1,
                flags = {DEFFLAG}\<rparr>,
               \<lparr>opType = MO_VirtualRegister, val = 6, immedVal = 0, regNum = - 1,
                flags = {}\<rparr>],
            numImplicitRefs = 1, regsUsed = {}\<rparr>) \<and>
   substituteValue carriesValue 5 6 True
      \<lparr>opCode = 2,
       operands =
         [\<lparr>opType = MO_VirtualRegister, val = 5, immedVal = 0, regNum = - 1, flags = {}\<rparr>,
          \<lparr>opType = MO_CCRegister, val = 5, immedVal = 0, regNum = - 1,
           flags = {DEFFLAG}\<rparr>,
          \<lparr>opType = MO_VirtualRegister, val = 5, immedVal = 0, regNum = - 1, flags = {}\<rparr>],
       numImplicitRefs = 1, regsUsed = {}\<rparr>
     = (1, \<lparr>opCode = 2,
            operands =
              [\<lparr>opType = MO_VirtualRegister, val = 5, immedVal = 0, regNum = - 1, flags = {}\<rparr>,
               \<lparr>opType = MO_CCRegister, val = 6, immedVal = 0, regNum = - 1,
                flags = {DEFFLAG}\<rparr>,
               \<lparr>opType = MO_VirtualRegister, val = 5, immedVal = 0, regNum = - 1,
                flags = {}\<rparr>],
            numImplicitRefs = 1, regsUsed = {}\<rparr>) \<and>
   substituteValue carriesValue 5 6 False
      \<lparr>opCode = 3,
       operands =
         [\<lparr>opType = MO_PCRelativeDisp, val = 5, immedVal = 0, regNum = - 1, flags = {}\<rparr>,
          \<lparr>opType = MO_SignExtendedImmed, val = NULL, immedVal = 5, regNum = - 1,
           flags = {}\<rparr>,
          \<lparr>opType = MO_VirtualRegister, val = 7, immedVal = 0, regNum = - 1, flags = {}\<rparr>],
       numImplicitRefs = 0, regsUsed = {}\<rparr>
     = (1, \<lparr>opCode = 3,
            operands =
              [\<lparr>opType = MO_PCRelativeDisp, val = 6, immedVal = 0, regNum = - 1, flags = {}\<rparr>,
               \<lparr>opType = MO_SignExtendedImmed, val = NULL, immedVal = 5, regNum = - 1,
                flags = {}\<rparr>,
               \<lparr>opType = MO_VirtualRegister, val = 7, immedVal = 0, regNum = - 1,
                flags = {}\<rparr>],
            numImplicitRefs = 0, regsUsed = {}\<rparr>)"
  using substituteValue_rewrites_and_counts
          [where a = 5 and b = 6 and opc = 2 and regs = "{}"
             and use_a = "\<lparr>opType = MO_VirtualRegister, val = 5, immedVal = 0,
                             regNum = - 1, flags = {}\<rparr>"
             and def_a = "\<lparr>opType = MO_CCRegister, val = 5, immedVal = 0,
                             regNum = - 1, flags = {DEFFLAG}\<rparr>"
             and implicit_a = "\<lparr>opType = MO_VirtualRegister, val = 5, immedVal = 0,
                                  regNum = - 1, flags = {}\<rparr>"
             and oldVal = 5 and newVal = 6 and defsOnly = False
             and mi = "\<lparr>opCode = 3,
                         operands =
                           [\<lparr>opType = MO_PCRelativeDisp, val = 5, immedVal = 0,
                             regNum = - 1, flags = {}\<rparr>,
                            \<lparr>opType = MO_SignExtendedImmed, val = NULL, immedVal = 5,
                             regNum = - 1, flags = {}\<rparr>,
                            \<lparr>opType = MO_VirtualRegister, val = 7, immedVal = 0,
                             regNum = - 1, flags = {}\<rparr>],
                         numImplicitRefs = 0, regsUsed = {}\<rparr>"]
  by (simp add: carriesValue_def opIsDef_def NULL_def getNumOperands_def)

text \<open>
  C2. \<^verbatim>\<open>substituteValue\<close> changes nothing of an instruction but the entity
  referenced by its operands: the opcode, the number of implicit references, the used
  registers and the number of operands stay, and every explicit operand and every
  implicit reference keeps its kind, its flags, its register and its immediate, hence
  its def/use classification; its reference is the one it had or \<open>newVal\<close>.
\<close>

theorem substituteValue_keeps_classification:
  "numImplicitRefs mi \<le> length (operands mi) \<Longrightarrow>
   substituteValue isValOp oldVal newVal defsOnly mi = (n, mi') \<Longrightarrow>
     opCode mi' = opCode mi \<and>
     numImplicitRefs mi' = numImplicitRefs mi \<and>
     regsUsed mi' = regsUsed mi \<and>
     length (operands mi') = length (operands mi) \<and>
     getNumOperands mi' = getNumOperands mi \<and>
     (\<forall>j < length (operands mi).
        opType (operands mi' ! j) = opType (operands mi ! j) \<and>
        flags (operands mi' ! j) = flags (operands mi ! j) \<and>
        regNum (operands mi' ! j) = regNum (operands mi ! j) \<and>
        immedVal (operands mi' ! j) = immedVal (operands mi ! j) \<and>
        opIsDef (operands mi' ! j) = opIsDef (operands mi ! j) \<and>
        opIsDefAndUse (operands mi' ! j) = opIsDefAndUse (operands mi ! j) \<and>
        (val (operands mi' ! j) = val (operands mi ! j) \<or>
         val (operands mi' ! j) = newVal)) \<and>
     (\<forall>i < getNumImplicitRefs mi.
        implicitRefIsDefined mi' i = implicitRefIsDefined mi i \<and>
        opIsDefAndUse (getImplicitOp mi' i) = opIsDefAndUse (getImplicitOp mi i))"
proof -
  assume wf: "numImplicitRefs mi \<le> length (operands mi)"
    and run: "substituteValue isValOp oldVal newVal defsOnly mi = (n, mi')"
  from run have mi': "mi' = snd (substituteValue isValOp oldVal newVal defsOnly mi)"
    by simp
  have frame: "opCode mi' = opCode mi" "numImplicitRefs mi' = numImplicitRefs mi"
    "regsUsed mi' = regsUsed mi" "length (operands mi') = length (operands mi)"
    unfolding mi' by (simp_all add: substituteValue_closed_form[OF wf] getNumOperands_def)
  then have N: "getNumOperands mi' = getNumOperands mi"
    by (simp add: getNumOperands_def)
  have nth: "operands mi' ! j = operands mi ! j \<or>
             operands mi' ! j = (operands mi ! j)\<lparr>val := newVal\<rparr>"
    if "j < length (operands mi)" for j
    unfolding mi' substituteValue_nth[OF wf that] by simp
  have ops: "opType (operands mi' ! j) = opType (operands mi ! j) \<and>
        flags (operands mi' ! j) = flags (operands mi ! j) \<and>
        regNum (operands mi' ! j) = regNum (operands mi ! j) \<and>
        immedVal (operands mi' ! j) = immedVal (operands mi ! j) \<and>
        opIsDef (operands mi' ! j) = opIsDef (operands mi ! j) \<and>
        opIsDefAndUse (operands mi' ! j) = opIsDefAndUse (operands mi ! j) \<and>
        (val (operands mi' ! j) = val (operands mi ! j) \<or>
         val (operands mi' ! j) = newVal)"
    if "j < length (operands mi)" for j
    using nth[OF that] by (auto simp: opIsDef_def opIsDefAndUse_def)
  have imp: "implicitRefIsDefined mi' i = implicitRefIsDefined mi i \<and>
        opIsDefAndUse (getImplicitOp mi' i) = opIsDefAndUse (getImplicitOp mi i)"
    if "i < getNumImplicitRefs mi" for i
  proof -
    from that wf have "implicitOpIndex mi i < length (operands mi)"
      by (simp add: implicitOpIndex_def getNumImplicitRefs_def)
    moreover have "implicitOpIndex mi' i = implicitOpIndex mi i"
      using frame by (simp add: implicitOpIndex_def)
    ultimately show ?thesis
      using ops[of "implicitOpIndex mi i"]
      by (simp add: implicitRefIsDefined_def getImplicitOp_def)
  qed
  from frame N ops imp show ?thesis
    by blast
qed

theorem substituteValue_keeps_classification_witness:
  "length (operands (snd (substituteValue
      (\<lambda>mo. (opType mo = MO_VirtualRegister \<or> opType mo = MO_CCRegister) \<and> val mo \<noteq> NULL)
      5 6 False
      \<lparr>opCode = 2,
       operands =
         [\<lparr>opType = MO_VirtualRegister, val = 5, immedVal = 0, regNum = - 1, flags = {}\<rparr>,
          \<lparr>opType = MO_VirtualRegister, val = 5, immedVal = 0, regNum = 3,
           flags = {DEFFLAG, LOFLAG32}\<rparr>,
          \<lparr>opType = MO_VirtualRegister, val = 5, immedVal = 0, regNum = - 1, flags = {}\<rparr>],
       numImplicitRefs = 1, regsUsed = {3}\<rparr>))) = 3 \<and>
   flags (operands (snd (substituteValue
      (\<lambda>mo. (opType mo = MO_VirtualRegister \<or> opType mo = MO_CCRegister) \<and> val mo \<noteq> NULL)
      5 6 False
      \<lparr>opCode = 2,
       operands =
         [\<lparr>opType = MO_VirtualRegister, val = 5, immedVal = 0, regNum = - 1, flags = {}\<rparr>,
          \<lparr>opType = MO_VirtualRegister, val = 5, immedVal = 0, regNum = 3,
           flags = {DEFFLAG, LOFLAG32}\<rparr>,
          \<lparr>opType = MO_VirtualRegister, val = 5, immedVal = 0, regNum = - 1, flags = {}\<rparr>],
       numImplicitRefs = 1, regsUsed = {3}\<rparr>)) ! 1) = {DEFFLAG, LOFLAG32} \<and>
   regNum (operands (snd (substituteValue
      (\<lambda>mo. (opType mo = MO_VirtualRegister \<or> opType mo = MO_CCRegister) \<and> val mo \<noteq> NULL)
      5 6 False
      \<lparr>opCode = 2,
       operands =
         [\<lparr>opType = MO_VirtualRegister, val = 5, immedVal = 0, regNum = - 1, flags = {}\<rparr>,
          \<lparr>opType = MO_VirtualRegister, val = 5, immedVal = 0, regNum = 3,
           flags = {DEFFLAG, LOFLAG32}\<rparr>,
          \<lparr>opType = MO_VirtualRegister, val = 5, immedVal = 0, regNum = - 1, flags = {}\<rparr>],
       numImplicitRefs = 1, regsUsed = {3}\<rparr>)) ! 1) = 3"
proof -
  let ?sel = "\<lambda>mo. (opType mo = MO_VirtualRegister \<or> opType mo = MO_CCRegister) \<and>
                   val mo \<noteq> NULL"
  let ?mi = "\<lparr>opCode = 2,
       operands =
         [\<lparr>opType = MO_VirtualRegister, val = 5, immedVal = 0, regNum = - 1, flags = {}\<rparr>,
          \<lparr>opType = MO_VirtualRegister, val = 5, immedVal = 0, regNum = 3,
           flags = {DEFFLAG, LOFLAG32}\<rparr>,
          \<lparr>opType = MO_VirtualRegister, val = 5, immedVal = 0, regNum = - 1, flags = {}\<rparr>],
       numImplicitRefs = 1, regsUsed = {3}\<rparr>"
  let ?r = "substituteValue ?sel 5 6 False ?mi"
  have wf: "numImplicitRefs ?mi \<le> length (operands ?mi)"
    by simp
  have run: "?r = (fst ?r, snd ?r)"
    by simp
  note kept = substituteValue_keeps_classification[OF wf run]
  from kept have len: "length (operands (snd ?r)) = length (operands ?mi)"
    by blast
  from kept have "\<forall>j < length (operands ?mi).
        opType (operands (snd ?r) ! j) = opType (operands ?mi ! j) \<and>
        flags (operands (snd ?r) ! j) = flags (operands ?mi ! j) \<and>
        regNum (operands (snd ?r) ! j) = regNum (operands ?mi ! j) \<and>
        immedVal (operands (snd ?r) ! j) = immedVal (operands ?mi ! j) \<and>
        opIsDef (operands (snd ?r) ! j) = opIsDef (operands ?mi ! j) \<and>
        opIsDefAndUse (operands (snd ?r) ! j) = opIsDefAndUse (operands ?mi ! j) \<and>
        (val (operands (snd ?r) ! j) = val (operands ?mi ! j) \<or>
         val (operands (snd ?r) ! j) = 6)"
    by blast
  then have "flags (operands (snd ?r) ! 1) = flags (operands ?mi ! 1) \<and>
             regNum (operands (snd ?r) ! 1) = regNum (operands ?mi ! 1)"
    by simp
  with len show ?thesis
    by simp
qed

section \<open>The two renderings of an operand\<close>

text \<open>
  Each rendering is the address-modifier prefix, the text of the operand's kind and a
  closing parenthesis when a modifier is set; the flag \<^verbatim>\<open>CloseParen\<close> of the one is
  the test on the four modifier bits of the other.
\<close>

lemma print_MachineOperand_parts:
  "print_MachineOperand mem TM MO =
     (case (case opType MO of
               MO_VirtualRegister \<Rightarrow>
                 Inr ((if val MO \<noteq> NULL
                       then ''%reg'' @ OutputValue mem (val MO) @
                            (if hasAllocatedReg MO then ''=='' else '''')
                       else '''') @
                      (if hasAllocatedReg MO
                       then OutputReg (to_unsigned (regNum MO)) (getRegisterInfo TM)
                       else ''''))
             | MO_CCRegister \<Rightarrow>
                 Inr (''%ccreg'' @ OutputValue mem (val MO) @
                      (if hasAllocatedReg MO
                       then ''=='' @ OutputReg (to_unsigned (regNum MO)) (getRegisterInfo TM)
                       else ''''))
             | MO_MachineRegister \<Rightarrow>
                 Inr (OutputReg (to_unsigned (regNum MO)) (getRegisterInfo TM))
             | MO_SignExtendedImmed \<Rightarrow> Inr (show_int (sint (immedVal MO)))
             | MO_UnextendedImmed \<Rightarrow> Inr (show_int (sint (immedVal MO)))
             | MO_PCRelativeDisp \<Rightarrow>
                 if val MO = NULL then Inl NullValue
                 else Inr (''%disp('' @
                           (if valueClass (mem (val MO)) = FunctionVal \<or>
                               valueClass (mem (val MO)) = BasicBlockVal
                            then ''label '' else ''addr-of-val '') @
                           (if hasName (mem (val MO)) then getName (mem (val MO))
                            else show_ptr (val MO)) @
                           '')'')) of
        Inl e \<Rightarrow> Inl e
      | Inr s \<Rightarrow>
          Inr ((if opHiBits32 MO then ''%lm(''
                else if opLoBits32 MO then ''%lo(''
                else if opHiBits64 MO then ''%hh(''
                else if opLoBits64 MO then ''%hm(''
                else '''') @ s @
               (if flags MO \<inter> {HIFLAG32, LOFLAG32, HIFLAG64, LOFLAG64} \<noteq> {}
                then '')'' else '''')))"
  by (cases "opType MO")
     (auto simp: print_MachineOperand_def Let_def opHiBits32_def opLoBits32_def
        opHiBits64_def opLoBits64_def)


lemma operator_lshift_MachineOperand_parts:
  "operator_lshift_MachineOperand mem mop =
     (case (case opType mop of
               MO_VirtualRegister \<Rightarrow>
                 Inr (''%reg'' @ OutputValue mem (val mop) @
                      (if hasAllocatedReg mop
                       then ''=='' @ OutputReg (to_unsigned (regNum mop)) None else ''''))
             | MO_CCRegister \<Rightarrow>
                 Inr (''%ccreg'' @ OutputValue mem (val mop) @
                      (if hasAllocatedReg mop
                       then ''=='' @ OutputReg (to_unsigned (regNum mop)) None else ''''))
             | MO_MachineRegister \<Rightarrow> Inr (OutputReg (to_unsigned (regNum mop)) None)
             | MO_SignExtendedImmed \<Rightarrow> Inr (show_int (sint (immedVal mop)))
             | MO_UnextendedImmed \<Rightarrow> Inr (show_int (sint (immedVal mop)))
             | MO_PCRelativeDisp \<Rightarrow>
                 if val mop = NULL then Inl NullValue
                 else Inr (''%disp('' @
                           (if valueClass (mem (val mop)) = FunctionVal \<or>
                               valueClass (mem (val mop)) = BasicBlockVal
                            then ''label '' else ''addr-of-val '') @
                           (if hasName (mem (val mop)) then getName (mem (val mop))
                            else show_ptr (val mop)) @
                           '')'')) of
        Inl e \<Rightarrow> Inl e
      | Inr s \<Rightarrow>
          Inr ((if opHiBits32 mop then ''%lm(''
                else if opLoBits32 mop then ''%lo(''
                else if opHiBits64 mop then ''%hh(''
                else if opLoBits64 mop then ''%hm(''
                else '''') @ s @
               (if flags mop \<inter> {HIFLAG32, LOFLAG32, HIFLAG64, LOFLAG64} \<noteq> {}
                then '')'' else '''')))"
  by (cases "opType mop") (simp_all add: operator_lshift_MachineOperand_def Let_def)

text \<open>
  C4, as the code has it. For every operand other than a virtual-register operand whose
  \<^verbatim>\<open>Value\<close> is null, the two renderings give the same text up to the name of
  the register: they are equal when the target machine has no register information,
  and in general they are either equal or of the shape \<open>pre @ R @ post\<close> with the same
  \<open>pre\<close> and \<open>post\<close>, where \<open>R\<close> is what \<^verbatim>\<open>OutputReg\<close> writes for the operand's
  register with the target's register information in the one and without it in the
  other.
\<close>

theorem operand_renderings_agree:
  "\<not> (opType MO = MO_VirtualRegister \<and> val MO = NULL) \<Longrightarrow>
     (getRegisterInfo TM = None \<longrightarrow>
        print_MachineOperand mem TM MO = operator_lshift_MachineOperand mem MO) \<and>
     (print_MachineOperand mem TM MO = operator_lshift_MachineOperand mem MO \<or>
      (\<exists>pre post.
         print_MachineOperand mem TM MO =
           Inr (pre @ OutputReg (to_unsigned (regNum MO)) (getRegisterInfo TM) @ post) \<and>
         operator_lshift_MachineOperand mem MO =
           Inr (pre @ OutputReg (to_unsigned (regNum MO)) None @ post)))"
proof -
  assume nn: "\<not> (opType MO = MO_VirtualRegister \<and> val MO = NULL)"
  let ?m = "if opHiBits32 MO then ''%lm(''
            else if opLoBits32 MO then ''%lo(''
            else if opHiBits64 MO then ''%hh(''
            else if opLoBits64 MO then ''%hm(''
            else ''''"
  let ?c = "if flags MO \<inter> {HIFLAG32, LOFLAG32, HIFLAG64, LOFLAG64} \<noteq> {}
            then '')'' else ''''"
  let ?r = "to_unsigned (regNum MO)"
  let ?P = "print_MachineOperand mem TM MO"
  let ?Q = "operator_lshift_MachineOperand mem MO"
  have same_if_none: "getRegisterInfo TM = None \<Longrightarrow> ?P = ?Q"
    using nn
    by (cases "opType MO")
       (simp_all add: print_MachineOperand_parts operator_lshift_MachineOperand_parts)
  have reg: "?P = ?Q \<or>
      (\<exists>pre post. ?P = Inr (pre @ OutputReg ?r (getRegisterInfo TM) @ post) \<and>
                   ?Q = Inr (pre @ OutputReg ?r None @ post))"
  proof (cases "opType MO")
    case MO_VirtualRegister
    with nn have v: "val MO \<noteq> NULL" by simp
    show ?thesis
    proof (cases "hasAllocatedReg MO")
      case True
      have "?P = Inr ((?m @ ''%reg'' @ OutputValue mem (val MO) @ ''=='') @
                      OutputReg ?r (getRegisterInfo TM) @ ?c)"
        and "?Q = Inr ((?m @ ''%reg'' @ OutputValue mem (val MO) @ ''=='') @
                      OutputReg ?r None @ ?c)"
        using True v MO_VirtualRegister
        by (simp_all add: print_MachineOperand_parts operator_lshift_MachineOperand_parts)
      then show ?thesis by blast
    next
      case False
      with v MO_VirtualRegister have "?P = ?Q"
        by (simp add: print_MachineOperand_parts operator_lshift_MachineOperand_parts)
      then show ?thesis ..
    qed
  next
    case MO_CCRegister
    show ?thesis
    proof (cases "hasAllocatedReg MO")
      case True
      have "?P = Inr ((?m @ ''%ccreg'' @ OutputValue mem (val MO) @ ''=='') @
                      OutputReg ?r (getRegisterInfo TM) @ ?c)"
        and "?Q = Inr ((?m @ ''%ccreg'' @ OutputValue mem (val MO) @ ''=='') @
                      OutputReg ?r None @ ?c)"
        using True MO_CCRegister
        by (simp_all add: print_MachineOperand_parts operator_lshift_MachineOperand_parts)
      then show ?thesis by blast
    next
      case False
      with MO_CCRegister have "?P = ?Q"
        by (simp add: print_MachineOperand_parts operator_lshift_MachineOperand_parts)
      then show ?thesis ..
    qed
  next
    case MO_MachineRegister
    have "?P = Inr (?m @ OutputReg ?r (getRegisterInfo TM) @ ?c)"
      and "?Q = Inr (?m @ OutputReg ?r None @ ?c)"
      using MO_MachineRegister
      by (simp_all add: print_MachineOperand_parts operator_lshift_MachineOperand_parts)
    then show ?thesis by blast
  next
    case MO_SignExtendedImmed
    then have "?P = ?Q"
      by (simp add: print_MachineOperand_parts operator_lshift_MachineOperand_parts)
    then show ?thesis ..
  next
    case MO_UnextendedImmed
    then have "?P = ?Q"
      by (simp add: print_MachineOperand_parts operator_lshift_MachineOperand_parts)
    then show ?thesis ..
  next
    case MO_PCRelativeDisp
    then have "?P = ?Q"
      by (simp add: print_MachineOperand_parts operator_lshift_MachineOperand_parts)
    then show ?thesis ..
  qed
  from same_if_none reg show ?thesis
    by blast
qed

text \<open>
  A virtual-register operand with a null \<^verbatim>\<open>Value\<close> and no register, as
  \<^verbatim>\<open>SetMachineOperandVal(i, MO_VirtualRegister, NULL)\<close> leaves it. With a target
  that has no register information, so that both forms name registers alike, the
  target-aware form writes nothing for it and the context-free form writes
  \<open>%reg(val\<close>, the text of the null address and \<open>)\<close>.
\<close>

theorem operand_renderings_agree_counterexample:
  "print_MachineOperand (\<lambda>_. \<lparr>hasName = False, getName = [], valueClass = OtherVal\<rparr>)
      \<lparr>getRegisterInfo = None\<rparr>
      \<lparr>opType = MO_VirtualRegister, val = NULL, immedVal = 0, regNum = - 1, flags = {}\<rparr>
     = Inr [] \<and>
   operator_lshift_MachineOperand
      (\<lambda>_. \<lparr>hasName = False, getName = [], valueClass = OtherVal\<rparr>)
      \<lparr>opType = MO_VirtualRegister, val = NULL, immedVal = 0, regNum = - 1, flags = {}\<rparr>
     = Inr (''%reg(val '' @ show_ptr NULL @ '')'') \<and>
   print_MachineOperand (\<lambda>_. \<lparr>hasName = False, getName = [], valueClass = OtherVal\<rparr>)
      \<lparr>getRegisterInfo = None\<rparr>
      \<lparr>opType = MO_VirtualRegister, val = NULL, immedVal = 0, regNum = - 1, flags = {}\<rparr>
     \<noteq> operator_lshift_MachineOperand
         (\<lambda>_. \<lparr>hasName = False, getName = [], valueClass = OtherVal\<rparr>)
         \<lparr>opType = MO_VirtualRegister, val = NULL, immedVal = 0, regNum = - 1,
          flags = {}\<rparr>"
  by (simp add: print_MachineOperand_def operator_lshift_MachineOperand_def
      opHiBits32_def opLoBits32_def opHiBits64_def opLoBits64_def
      hasAllocatedReg_def OutputValue_def NULL_def)

theorem operand_renderings_agree_witness:
  "print_MachineOperand (\<lambda>_. \<lparr>hasName = True, getName = ''x'', valueClass = OtherVal\<rparr>)
      \<lparr>getRegisterInfo = Some \<lparr>regName = (\<lambda>_. ''eax''), FirstVirtualRegister = 1024\<rparr>\<rparr>
      \<lparr>opType = MO_VirtualRegister, val = 3, immedVal = 0, regNum = 33,
       flags = {LOFLAG32}\<rparr>
     = Inr ''%lo(%reg(val x)==%eax)'' \<and>
   operator_lshift_MachineOperand
      (\<lambda>_. \<lparr>hasName = True, getName = ''x'', valueClass = OtherVal\<rparr>)
      \<lparr>opType = MO_VirtualRegister, val = 3, immedVal = 0, regNum = 33,
       flags = {LOFLAG32}\<rparr>
     = Inr ''%lo(%reg(val x)==%mreg(33))'' \<and>
   print_MachineOperand (\<lambda>_. \<lparr>hasName = True, getName = ''x'', valueClass = OtherVal\<rparr>)
      \<lparr>getRegisterInfo = None\<rparr>
      \<lparr>opType = MO_VirtualRegister, val = 3, immedVal = 0, regNum = 33,
       flags = {LOFLAG32}\<rparr>
     = Inr ''%lo(%reg(val x)==%mreg(33))''"
  using operand_renderings_agree
          [where MO = "\<lparr>opType = MO_VirtualRegister, val = 3, immedVal = 0, regNum = 33,
                         flags = {LOFLAG32}\<rparr>"
             and TM = "\<lparr>getRegisterInfo = None\<rparr>"
             and mem = "\<lambda>_. \<lparr>hasName = True, getName = ''x'', valueClass = OtherVal\<rparr>"]
  by (simp add: print_MachineOperand_def operator_lshift_MachineOperand_def
      opHiBits32_def opLoBits32_def opHiBits64_def opLoBits64_def
      hasAllocatedReg_def OutputValue_def OutputReg_def NULL_def to_unsigned_def
      show_nat.simps)

end
